theory Spec2Isabelle
  imports Main "HOL-Library.Word"
begin

unbundle bit_operations_syntax

section \<open>Error codes and exceptions\<close>

text \<open>
  A \<open>boost::system::error_code\<close> is an integer value together with a category. The
  categories that occur in \<open>context.hpp\<close> are the system category (the category of a
  default-constructed code and of \<open>boost::asio::error::operation_not_supported\<close>) and the
  two categories declared in namespace \<open>error\<close> (lines 51-52); \<open>other_category\<close> stands
  for any further category a caller may pass in through the out-parameter.
\<close>

datatype error_category =
  system_category | ssl_category | stream_category | other_category nat

datatype error_code = error_code (ec_value: int) (ec_category: error_category)

text \<open>The default constructor \<open>error_code ec;\<close>: value 0 in the system category.\<close>

definition default_error_code :: error_code where
  "default_error_code = error_code 0 system_category"

text \<open>\<open>if (ec)\<close>: a code is a failure when its value is not zero.\<close>

definition failed :: "error_code \<Rightarrow> bool" where
  "failed ec = (ec_value ec \<noteq> 0)"

text \<open>
  \<open>boost::asio::error::operation_not_supported\<close> is the errno value \<open>EOPNOTSUPP\<close>
  (95 on Linux) in the system category.
\<close>

definition EOPNOTSUPP :: int where
  "EOPNOTSUPP = 95"

definition operation_not_supported :: error_code where
  "operation_not_supported = error_code EOPNOTSUPP system_category"

definition GNUTLS_E_SUCCESS :: int where
  "GNUTLS_E_SUCCESS = 0"

text \<open>
  The exceptions raised in the file: \<open>boost::system::system_error(ec)\<close>, which carries
  the code (and through it the message), and \<open>std::runtime_error(msg)\<close>.
\<close>

datatype exn = system_error error_code | runtime_error string

text \<open>
  What a call does: it returns a value in a new state, it throws in a new state, or its
  behaviour is undefined (a null or dangling \<open>m_impl\<close> is dereferenced, a
  \<open>std::string\<close> is built from a null pointer).
\<close>

datatype ('a, 'st) outcome =
  Returned (result_of: 'a) (state_of: 'st) | Thrown exn 'st | Undefined

section \<open>The role and version constants\<close>

text \<open>\<open>enum method : int\<close> (lines 62-87), with the value of every constant.\<close>

datatype tls_method =
  tls | tls_client | tls_server
  | tlsv1 | tlsv1_client | tlsv1_server
  | tlsv11 | tlsv11_client | tlsv11_server
  | tlsv12 | tlsv12_client | tlsv12_server
  | tlsv13 | tlsv13_client | tlsv13_server
  | sslv23 | sslv23_client | sslv23_server

text \<open>\<open>static_cast<unsigned int>(m)\<close>: the constant as a 32-bit unsigned value.\<close>

fun method_value :: "tls_method \<Rightarrow> 32 word" where
  "method_value tls = 0x0000"
| "method_value tls_client = 0x0001"
| "method_value tls_server = 0x0002"
| "method_value tlsv1 = 0x1000"
| "method_value tlsv1_client = 0x1001"
| "method_value tlsv1_server = 0x1002"
| "method_value tlsv11 = 0x1100"
| "method_value tlsv11_client = 0x1101"
| "method_value tlsv11_server = 0x1102"
| "method_value tlsv12 = 0x1200"
| "method_value tlsv12_client = 0x1201"
| "method_value tlsv12_server = 0x1202"
| "method_value tlsv13 = 0x1300"
| "method_value tlsv13_client = 0x1301"
| "method_value tlsv13_server = 0x1302"
| "method_value sslv23 = 0x0300"
| "method_value sslv23_client = 0x0301"
| "method_value sslv23_server = 0x0302"

datatype file_format = pem | der

section \<open>The credential store\<close>

text \<open>
  Addresses of context objects and of \<open>impl\<close> objects, and the native credential
  handle (\<open>gnutls_certificate_credentials_t\<close>, a pointer: 0 is the null handle).
\<close>

type_synonym ctx_ptr = nat
type_synonym impl_ptr = nat
type_synonym native_handle_type = nat

text \<open>
  \<open>struct impl\<close> (lines 381-414). \<open>verify_mode\<close> is an \<open>int\<close> (32 bits) and
  \<open>options\<close> a \<open>long\<close> (64 bits on LP64); both are kept as bit patterns. A
  \<open>std::function\<close> is empty (\<open>None\<close>) or holds a callable; the callables themselves
  are opaque (\<open>'v\<close>, \<open>'s\<close>). \<open>parent\<close> is \<open>None\<close> for \<open>nullptr\<close>.
\<close>

record ('v, 's) impl =
  m :: tls_method
  parent :: "ctx_ptr option"
  cred :: native_handle_type
  verify :: "32 word"
  opts :: "64 word"
  certificate_file :: string
  private_key_file :: string
  certificate :: string
  private_key :: string
  passphrase :: string
  verify_callback :: "'v option"
  servername_callback :: "'s option"

text \<open>The two accessors of \<open>impl\<close> (lines 396-397).\<close>

definition is_server :: "('v, 's) impl \<Rightarrow> bool" where
  "is_server i = (method_value (m i) AND 0x2 \<noteq> 0)"

definition tls_version :: "('v, 's) impl \<Rightarrow> 32 word" where
  "tls_version i = drop_bit 16 (method_value (m i))"

section \<open>The native engine\<close>

text \<open>
  GnuTLS is an external library. Its functions are taken as a parameter: a record of
  functions over the engine's own state \<open>'w\<close> (the contents behind every handle, the
  file system, the system trust store). Each returns the C function's \<open>int\<close> result and
  the new engine state; \<open>gnutls_certificate_allocate_credentials\<close> also returns the
  handle it wrote through its pointer argument. \<open>gnutls_strerror\<close> returns a C string
  or a null pointer (\<open>None\<close>).
\<close>

datatype gnutls_x509_crt_fmt_t = GNUTLS_X509_FMT_DER | GNUTLS_X509_FMT_PEM

datatype gnutls_sec_param_t = GNUTLS_SEC_PARAM_MEDIUM

record 'w engine =
  gnutls_certificate_allocate_credentials :: "'w \<Rightarrow> int \<times> native_handle_type \<times> 'w"
  gnutls_certificate_free_credentials :: "native_handle_type \<Rightarrow> 'w \<Rightarrow> 'w"
  gnutls_certificate_set_known_dh_params ::
    "native_handle_type \<Rightarrow> gnutls_sec_param_t \<Rightarrow> 'w \<Rightarrow> int \<times> 'w"
  gnutls_certificate_set_x509_system_trust :: "native_handle_type \<Rightarrow> 'w \<Rightarrow> int \<times> 'w"
  gnutls_certificate_set_x509_key_file2 ::
    "native_handle_type \<Rightarrow> string \<Rightarrow> string \<Rightarrow> gnutls_x509_crt_fmt_t \<Rightarrow> string \<Rightarrow> nat
      \<Rightarrow> 'w \<Rightarrow> int \<times> 'w"
  gnutls_certificate_set_x509_key_mem2 ::
    "native_handle_type \<Rightarrow> string \<Rightarrow> string \<Rightarrow> gnutls_x509_crt_fmt_t \<Rightarrow> string \<Rightarrow> nat
      \<Rightarrow> 'w \<Rightarrow> int \<times> 'w"
  gnutls_certificate_set_x509_trust_mem ::
    "native_handle_type \<Rightarrow> string \<Rightarrow> gnutls_x509_crt_fmt_t \<Rightarrow> 'w \<Rightarrow> int \<times> 'w"
  gnutls_strerror :: "int \<Rightarrow> string option"

text \<open>\<open>format == pem ? GNUTLS_X509_FMT_PEM : GNUTLS_X509_FMT_DER\<close>\<close>

definition native_format :: "file_format \<Rightarrow> gnutls_x509_crt_fmt_t" where
  "native_format format = (if format = pem then GNUTLS_X509_FMT_PEM else GNUTLS_X509_FMT_DER)"

text \<open>
  \<open>s.c_str()\<close> read as a C string: the bytes before the first NUL. (A
  \<open>gnutls_datum_t\<close> built from \<open>c_str()\<close> and \<open>size()\<close> is the whole string.)
\<close>

definition c_str :: "string \<Rightarrow> string" where
  "c_str s = takeWhile (\<lambda>c. c \<noteq> CHR 0x00) s"

text \<open>\<open>error_category::message\<close> (lines 42-46).\<close>

definition message :: "'w engine \<Rightarrow> int \<Rightarrow> string" where
  "message E v = (case gnutls_strerror E v of Some s \<Rightarrow> s | None \<Rightarrow> ''GnuTLS error'')"

section \<open>Program state\<close>

text \<open>
  The state holds every live context object with its \<open>m_impl\<close> member (\<open>Some None\<close>
  is a live context whose \<open>m_impl\<close> is null), the heap of \<open>impl\<close> objects created by
  \<open>std::make_shared\<close>, the use count of each one's control block (a stream may hold
  further references), the next address the allocator hands out, and the state of the
  native engine.
\<close>

record ('v, 's, 'w) state =
  contexts :: "ctx_ptr \<rightharpoonup> impl_ptr option"
  impls :: "impl_ptr \<rightharpoonup> ('v, 's) impl"
  use_count :: "impl_ptr \<Rightarrow> nat"
  next_impl :: impl_ptr
  native :: 'w

text \<open>
  \<open>m_impl-><field>\<close> on the context at \<open>this\<close>: the address and the object, or
  \<open>None\<close> where the dereference is undefined (no context there, a null \<open>m_impl\<close>, a
  destroyed \<open>impl\<close>).
\<close>

definition deref ::
  "('v, 's, 'w) state \<Rightarrow> ctx_ptr \<Rightarrow> (impl_ptr \<times> ('v, 's) impl) option" where
  "deref s this =
     (case contexts s this of
        Some (Some p) \<Rightarrow> (case impls s p of Some i \<Rightarrow> Some (p, i) | None \<Rightarrow> None)
      | _ \<Rightarrow> None)"

definition set_impl ::
  "impl_ptr \<Rightarrow> ('v, 's) impl \<Rightarrow> ('v, 's, 'w) state \<Rightarrow> ('v, 's, 'w) state" where
  "set_impl p i s = s\<lparr>impls := (impls s)(p \<mapsto> i)\<rparr>"

section \<open>Construction, move and destruction\<close>

text \<open>
  \<open>impl::impl(context* p_, method m_)\<close> (lines 383-393; the parameters are \<open>p0\<close> and
  \<open>m0\<close> here). The members with default initialisers start at 0, the strings empty,
  the two \<open>std::function\<close>s empty.
\<close>

definition impl_ctor ::
  "'w engine \<Rightarrow> ctx_ptr \<Rightarrow> tls_method \<Rightarrow> 'w \<Rightarrow> (('v, 's) impl, 'w) outcome" where
  "impl_ctor E p0 m0 w =
     (case gnutls_certificate_allocate_credentials E w of
        (ret, c, w') \<Rightarrow>
          if ret \<noteq> GNUTLS_E_SUCCESS then
            (case gnutls_strerror E ret of
               None \<Rightarrow> Undefined
             | Some msg \<Rightarrow>
                 Thrown (runtime_error
                   (''gnutls_certificate_allocate_credentials failed: '' @ msg)) w')
          else
            (case gnutls_certificate_set_known_dh_params E c GNUTLS_SEC_PARAM_MEDIUM w' of
               (_, w'') \<Rightarrow>
                 Returned
                   \<lparr>m = m0, parent = Some p0, cred = c, verify = 0, opts = 0,
                    certificate_file = [], private_key_file = [], certificate = [],
                    private_key = [], passphrase = [], verify_callback = None,
                    servername_callback = None\<rparr> w''))"

text \<open>
  \<open>explicit context(method m)\<close> (lines 117-119): \<open>std::make_shared<impl>(this, m)\<close>
  builds the \<open>impl\<close> at a new address with use count 1; an exception of the \<open>impl\<close>
  constructor leaves no object behind.
\<close>

definition context_ctor ::
  "'w engine \<Rightarrow> ctx_ptr \<Rightarrow> tls_method \<Rightarrow> ('v, 's, 'w) state
    \<Rightarrow> (unit, ('v, 's, 'w) state) outcome" where
  "context_ctor E this m0 s =
     (case impl_ctor E this m0 (native s) of
        Undefined \<Rightarrow> Undefined
      | Thrown e w' \<Rightarrow> Thrown e (s\<lparr>native := w'\<rparr>)
      | Returned i w' \<Rightarrow>
          Returned ()
            (s\<lparr>contexts := (contexts s)(this \<mapsto> Some (next_impl s)),
               impls := (impls s)(next_impl s \<mapsto> i),
               use_count := (use_count s)(next_impl s := 1),
               next_impl := Suc (next_impl s),
               native := w'\<rparr>))"

text \<open>
  Dropping one \<open>shared_ptr<impl>\<close>: nothing for a null pointer; otherwise the use count
  goes down by one, and the last owner runs \<open>~impl()\<close> (line 394), which frees the
  native credentials, and the object is gone.
\<close>

definition release ::
  "'w engine \<Rightarrow> impl_ptr option \<Rightarrow> ('v, 's, 'w) state \<Rightarrow> ('v, 's, 'w) state" where
  "release E q s =
     (case q of
        None \<Rightarrow> s
      | Some p \<Rightarrow>
          if 1 < use_count s p then s\<lparr>use_count := (use_count s)(p := use_count s p - 1)\<rparr>
          else
            (case impls s p of
               None \<Rightarrow> s\<lparr>use_count := (use_count s)(p := 0)\<rparr>
             | Some i \<Rightarrow>
                 s\<lparr>impls := (impls s)(p := None),
                   use_count := (use_count s)(p := 0),
                   native := gnutls_certificate_free_credentials E (cred i) (native s)\<rparr>))"

text \<open>
  \<open>context& operator=(context&& other)\<close> (lines 127-132).
  \<open>m_impl = std::move(other.m_impl)\<close> is \<open>shared_ptr(std::move(r)).swap(*this)\<close>: a
  temporary takes the pointer of \<open>other\<close> and leaves it null, the temporary and
  \<open>this->m_impl\<close> are swapped, and the temporary, now holding the old pointer of
  \<open>this\<close>, is released. Then \<open>m_impl->parent = this\<close>.
\<close>

definition move_assign ::
  "'w engine \<Rightarrow> ctx_ptr \<Rightarrow> ctx_ptr \<Rightarrow> ('v, 's, 'w) state
    \<Rightarrow> (unit, ('v, 's, 'w) state) outcome" where
  "move_assign E this other s =
     (case contexts s other of
        None \<Rightarrow> Undefined
      | Some tmp \<Rightarrow>
          let s1 = s\<lparr>contexts := (contexts s)(other \<mapsto> None)\<rparr> in
          (case contexts s1 this of
             None \<Rightarrow> Undefined
           | Some old \<Rightarrow>
               let s2 = s1\<lparr>contexts := (contexts s1)(this \<mapsto> tmp)\<rparr>;
                   s3 = release E old s2
               in (case deref s3 this of
                     None \<Rightarrow> Undefined
                   | Some (p, i) \<Rightarrow> Returned () (set_impl p (i\<lparr>parent := Some this\<rparr>) s3))))"

text \<open>
  \<open>context(context&& other)\<close> (line 120): \<open>m_impl\<close> starts null, then the move
  assignment runs.
\<close>

definition context_move_ctor ::
  "'w engine \<Rightarrow> ctx_ptr \<Rightarrow> ctx_ptr \<Rightarrow> ('v, 's, 'w) state
    \<Rightarrow> (unit, ('v, 's, 'w) state) outcome" where
  "context_move_ctor E this other s =
     move_assign E this other (s\<lparr>contexts := (contexts s)(this \<mapsto> None)\<rparr>)"

text \<open>
  \<open>~context()\<close> (lines 122-125): the back-reference is cleared when \<open>m_impl\<close> is not
  null, then the member \<open>m_impl\<close> is released and the context is gone.
\<close>

definition context_dtor ::
  "'w engine \<Rightarrow> ctx_ptr \<Rightarrow> ('v, 's, 'w) state \<Rightarrow> (unit, ('v, 's, 'w) state) outcome" where
  "context_dtor E this s =
     (case contexts s this of
        None \<Rightarrow> Undefined
      | Some None \<Rightarrow> Returned () (s\<lparr>contexts := (contexts s)(this := None)\<rparr>)
      | Some (Some p) \<Rightarrow>
          (case impls s p of
             None \<Rightarrow> Undefined
           | Some i \<Rightarrow>
               let s1 = set_impl p (i\<lparr>parent := None\<rparr>) s;
                   s2 = release E (Some p) s1
               in Returned () (s2\<lparr>contexts := (contexts s2)(this := None)\<rparr>)))"

text \<open>\<open>native_handle()\<close> (line 134): \<open>m_impl->cred\<close>.\<close>

definition native_handle ::
  "ctx_ptr \<Rightarrow> ('v, 's, 'w) state \<Rightarrow> (native_handle_type, ('v, 's, 'w) state) outcome" where
  "native_handle this s =
     (case deref s this of None \<Rightarrow> Undefined | Some (p, i) \<Rightarrow> Returned (cred i) s)"

section \<open>The non-throwing mutators\<close>

text \<open>
  Each takes the context (\<open>this\<close>), its arguments, the value of the out-parameter
  \<open>ec\<close> at the call and the state; it returns the returned \<open>error_code\<close> paired with
  the value of \<open>ec\<close> after the call (\<open>clear_options\<close> returns \<open>void\<close>: only \<open>ec\<close>).
\<close>

text \<open>\<open>error_code set_options(options opts, error_code& ec)\<close> (lines 145-149).\<close>

definition set_options ::
  "ctx_ptr \<Rightarrow> 64 word \<Rightarrow> error_code \<Rightarrow> ('v, 's, 'w) state
    \<Rightarrow> (error_code \<times> error_code, ('v, 's, 'w) state) outcome" where
  "set_options this opts' ec s =
     (case deref s this of
        None \<Rightarrow> Undefined
      | Some (p, i) \<Rightarrow> Returned (ec, ec) (set_impl p (i\<lparr>opts := opts'\<rparr>) s))"

text \<open>\<open>void clear_options(error_code& ec)\<close> (line 160).\<close>

definition clear_options ::
  "ctx_ptr \<Rightarrow> error_code \<Rightarrow> ('v, 's, 'w) state \<Rightarrow> (error_code, ('v, 's, 'w) state) outcome" where
  "clear_options this ec s =
     (case deref s this of
        None \<Rightarrow> Undefined
      | Some (p, i) \<Rightarrow> Returned ec (set_impl p (i\<lparr>opts := 0\<rparr>) s))"

text \<open>\<open>set_default_verify_paths(error_code& ec)\<close> (lines 171-176).\<close>

definition set_default_verify_paths ::
  "'w engine \<Rightarrow> ctx_ptr \<Rightarrow> error_code \<Rightarrow> ('v, 's, 'w) state
    \<Rightarrow> (error_code \<times> error_code, ('v, 's, 'w) state) outcome" where
  "set_default_verify_paths E this ec s =
     (case deref s this of
        None \<Rightarrow> Undefined
      | Some (p, i) \<Rightarrow>
          (case gnutls_certificate_set_x509_system_trust E (cred i) (native s) of
             (ret, w') \<Rightarrow>
               let ec' = (if ret \<noteq> GNUTLS_E_SUCCESS then error_code ret ssl_category else ec)
               in Returned (ec', ec') (s\<lparr>native := w'\<rparr>)))"

text \<open>\<open>set_verify_mode(verify_mode v, error_code& ec)\<close> (lines 187-191).\<close>

definition set_verify_mode ::
  "ctx_ptr \<Rightarrow> 32 word \<Rightarrow> error_code \<Rightarrow> ('v, 's, 'w) state
    \<Rightarrow> (error_code \<times> error_code, ('v, 's, 'w) state) outcome" where
  "set_verify_mode this v ec s =
     (case deref s this of
        None \<Rightarrow> Undefined
      | Some (p, i) \<Rightarrow> Returned (ec, ec) (set_impl p (i\<lparr>verify := v\<rparr>) s))"

text \<open>\<open>set_verify_callback(VerifyCallback callback, error_code& ec)\<close> (lines 202-207).\<close>

definition set_verify_callback ::
  "ctx_ptr \<Rightarrow> 'v option \<Rightarrow> error_code \<Rightarrow> ('v, 's, 'w) state
    \<Rightarrow> (error_code \<times> error_code, ('v, 's, 'w) state) outcome" where
  "set_verify_callback this callback ec s =
     (case deref s this of
        None \<Rightarrow> Undefined
      | Some (p, i) \<Rightarrow> Returned (ec, ec) (set_impl p (i\<lparr>verify_callback := callback\<rparr>) s))"

text \<open>\<open>use_passphrase(std::string const& pass, error_code& ec)\<close> (lines 218-222).\<close>

definition use_passphrase ::
  "ctx_ptr \<Rightarrow> string \<Rightarrow> error_code \<Rightarrow> ('v, 's, 'w) state
    \<Rightarrow> (error_code \<times> error_code, ('v, 's, 'w) state) outcome" where
  "use_passphrase this pass ec s =
     (case deref s this of
        None \<Rightarrow> Undefined
      | Some (p, i) \<Rightarrow> Returned (ec, ec) (set_impl p (i\<lparr>passphrase := pass\<rparr>) s))"

text \<open>
  \<open>use_certificate_file(std::string const& filename, file_format, error_code& ec)\<close>
  (lines 233-237).
\<close>

definition use_certificate_file ::
  "ctx_ptr \<Rightarrow> string \<Rightarrow> file_format \<Rightarrow> error_code \<Rightarrow> ('v, 's, 'w) state
    \<Rightarrow> (error_code \<times> error_code, ('v, 's, 'w) state) outcome" where
  "use_certificate_file this filename format ec s =
     (case deref s this of
        None \<Rightarrow> Undefined
      | Some (p, i) \<Rightarrow> Returned (ec, ec) (set_impl p (i\<lparr>certificate_file := filename\<rparr>) s))"

text \<open>
  \<open>use_private_key_file(std::string const& filename, file_format format, error_code& ec)\<close>
  (lines 248-263).
\<close>

definition use_private_key_file ::
  "'w engine \<Rightarrow> ctx_ptr \<Rightarrow> string \<Rightarrow> file_format \<Rightarrow> error_code \<Rightarrow> ('v, 's, 'w) state
    \<Rightarrow> (error_code \<times> error_code, ('v, 's, 'w) state) outcome" where
  "use_private_key_file E this filename format ec s =
     (case deref s this of
        None \<Rightarrow> Undefined
      | Some (p, i) \<Rightarrow>
          if certificate_file i = [] then
            Returned (operation_not_supported, operation_not_supported) s
          else
            let i' = i\<lparr>private_key_file := filename\<rparr> in
            (case gnutls_certificate_set_x509_key_file2 E (cred i')
                    (c_str (certificate_file i')) (c_str (private_key_file i'))
                    (native_format format) (c_str (passphrase i')) 0 (native s) of
               (ret, w') \<Rightarrow>
                 let ec' = (if ret \<noteq> GNUTLS_E_SUCCESS then error_code ret ssl_category else ec)
                 in Returned (ec', ec') ((set_impl p i' s)\<lparr>native := w'\<rparr>)))"

text \<open>\<open>use_tmp_dh_file(std::string const&, error_code& ec)\<close> (lines 274-279).\<close>

definition use_tmp_dh_file ::
  "ctx_ptr \<Rightarrow> string \<Rightarrow> error_code \<Rightarrow> ('v, 's, 'w) state
    \<Rightarrow> (error_code \<times> error_code, ('v, 's, 'w) state) outcome" where
  "use_tmp_dh_file this filename ec s = Returned (ec, ec) s"

text \<open>
  \<open>use_certificate(const_buffer const& certificate, file_format, error_code& ec)\<close>
  (lines 290-295); the buffer is its bytes.
\<close>

definition use_certificate ::
  "ctx_ptr \<Rightarrow> string \<Rightarrow> file_format \<Rightarrow> error_code \<Rightarrow> ('v, 's, 'w) state
    \<Rightarrow> (error_code \<times> error_code, ('v, 's, 'w) state) outcome" where
  "use_certificate this buf format ec s =
     (case deref s this of
        None \<Rightarrow> Undefined
      | Some (p, i) \<Rightarrow> Returned (ec, ec) (set_impl p (i\<lparr>certificate := buf\<rparr>) s))"

text \<open>
  \<open>use_private_key(const_buffer const& private_key, file_format format, error_code& ec)\<close>
  (lines 306-332).
\<close>

definition use_private_key ::
  "'w engine \<Rightarrow> ctx_ptr \<Rightarrow> string \<Rightarrow> file_format \<Rightarrow> error_code \<Rightarrow> ('v, 's, 'w) state
    \<Rightarrow> (error_code \<times> error_code, ('v, 's, 'w) state) outcome" where
  "use_private_key E this buf format ec s =
     (case deref s this of
        None \<Rightarrow> Undefined
      | Some (p, i) \<Rightarrow>
          if certificate i = [] then
            Returned (operation_not_supported, operation_not_supported) s
          else
            let i' = i\<lparr>private_key := buf\<rparr> in
            (case gnutls_certificate_set_x509_key_mem2 E (cred i')
                    (certificate i') (private_key i')
                    (native_format format) (c_str (passphrase i')) 0 (native s) of
               (ret, w') \<Rightarrow>
                 let ec' = (if ret \<noteq> GNUTLS_E_SUCCESS then error_code ret ssl_category else ec)
                 in Returned (ec', ec') ((set_impl p i' s)\<lparr>native := w'\<rparr>)))"

text \<open>\<open>use_tmp_dh(const_buffer const&, error_code& ec)\<close> (lines 343-348).\<close>

definition use_tmp_dh ::
  "ctx_ptr \<Rightarrow> string \<Rightarrow> error_code \<Rightarrow> ('v, 's, 'w) state
    \<Rightarrow> (error_code \<times> error_code, ('v, 's, 'w) state) outcome" where
  "use_tmp_dh this buf ec s = Returned (ec, ec) s"

text \<open>\<open>set_servername_callback(std::function<...> cb, error_code& ec)\<close> (lines 352-357).\<close>

definition set_servername_callback ::
  "ctx_ptr \<Rightarrow> 's option \<Rightarrow> error_code \<Rightarrow> ('v, 's, 'w) state
    \<Rightarrow> (error_code \<times> error_code, ('v, 's, 'w) state) outcome" where
  "set_servername_callback this cb ec s =
     (case deref s this of
        None \<Rightarrow> Undefined
      | Some (p, i) \<Rightarrow> Returned (ec, ec) (set_impl p (i\<lparr>servername_callback := cb\<rparr>) s))"

text \<open>
  \<open>set_verify_trust(const_buffer const& certificate, file_format format, error_code& ec)\<close>
  (lines 361-376).
\<close>

definition set_verify_trust ::
  "'w engine \<Rightarrow> ctx_ptr \<Rightarrow> string \<Rightarrow> file_format \<Rightarrow> error_code \<Rightarrow> ('v, 's, 'w) state
    \<Rightarrow> (error_code \<times> error_code, ('v, 's, 'w) state) outcome" where
  "set_verify_trust E this buf format ec s =
     (case deref s this of
        None \<Rightarrow> Undefined
      | Some (p, i) \<Rightarrow>
          (case gnutls_certificate_set_x509_trust_mem E (cred i) buf (native_format format)
                  (native s) of
             (ret, w') \<Rightarrow>
               let ec' = (if ret < 0 then error_code ret ssl_category else ec)
               in Returned (ec', ec') (s\<lparr>native := w'\<rparr>)))"

section \<open>The throwing mutators\<close>

text \<open>
  The overloads without an \<open>error_code&\<close> parameter (lines 136-143, 151-158, 162-169,
  178-185, 193-200, 209-216, 224-231, 239-246, 265-272, 281-288, 297-304, 334-341), each
  with the body \<open>error_code ec; f(..., ec); if (ec) boost::throw_exception(system_error(ec));\<close>.
  They carry the suffix \<open>_throwing\<close> here, since the two overloads share a name.
\<close>

definition set_options_throwing ::
  "ctx_ptr \<Rightarrow> 64 word \<Rightarrow> ('v, 's, 'w) state
    \<Rightarrow> (unit, ('v, 's, 'w) state) outcome" where
  "set_options_throwing this opts' s =
     (case set_options this opts' default_error_code s of
        Returned (r, ec) s' \<Rightarrow>
          if failed ec then Thrown (system_error ec) s' else Returned () s'
      | Thrown e s' \<Rightarrow> Thrown e s'
      | Undefined \<Rightarrow> Undefined)"

definition clear_options_throwing ::
  "ctx_ptr \<Rightarrow> ('v, 's, 'w) state
    \<Rightarrow> (unit, ('v, 's, 'w) state) outcome" where
  "clear_options_throwing this s =
     (case clear_options this default_error_code s of
        Returned ec s' \<Rightarrow>
          if failed ec then Thrown (system_error ec) s' else Returned () s'
      | Thrown e s' \<Rightarrow> Thrown e s'
      | Undefined \<Rightarrow> Undefined)"

definition set_default_verify_paths_throwing ::
  "'w engine \<Rightarrow> ctx_ptr \<Rightarrow> ('v, 's, 'w) state
    \<Rightarrow> (unit, ('v, 's, 'w) state) outcome" where
  "set_default_verify_paths_throwing E this s =
     (case set_default_verify_paths E this default_error_code s of
        Returned (r, ec) s' \<Rightarrow>
          if failed ec then Thrown (system_error ec) s' else Returned () s'
      | Thrown e s' \<Rightarrow> Thrown e s'
      | Undefined \<Rightarrow> Undefined)"

definition set_verify_mode_throwing ::
  "ctx_ptr \<Rightarrow> 32 word \<Rightarrow> ('v, 's, 'w) state
    \<Rightarrow> (unit, ('v, 's, 'w) state) outcome" where
  "set_verify_mode_throwing this v s =
     (case set_verify_mode this v default_error_code s of
        Returned (r, ec) s' \<Rightarrow>
          if failed ec then Thrown (system_error ec) s' else Returned () s'
      | Thrown e s' \<Rightarrow> Thrown e s'
      | Undefined \<Rightarrow> Undefined)"

definition set_verify_callback_throwing ::
  "ctx_ptr \<Rightarrow> 'v option \<Rightarrow> ('v, 's, 'w) state
    \<Rightarrow> (unit, ('v, 's, 'w) state) outcome" where
  "set_verify_callback_throwing this callback s =
     (case set_verify_callback this callback default_error_code s of
        Returned (r, ec) s' \<Rightarrow>
          if failed ec then Thrown (system_error ec) s' else Returned () s'
      | Thrown e s' \<Rightarrow> Thrown e s'
      | Undefined \<Rightarrow> Undefined)"

definition use_passphrase_throwing ::
  "ctx_ptr \<Rightarrow> string \<Rightarrow> ('v, 's, 'w) state
    \<Rightarrow> (unit, ('v, 's, 'w) state) outcome" where
  "use_passphrase_throwing this pass s =
     (case use_passphrase this pass default_error_code s of
        Returned (r, ec) s' \<Rightarrow>
          if failed ec then Thrown (system_error ec) s' else Returned () s'
      | Thrown e s' \<Rightarrow> Thrown e s'
      | Undefined \<Rightarrow> Undefined)"

definition use_certificate_file_throwing ::
  "ctx_ptr \<Rightarrow> string \<Rightarrow> file_format \<Rightarrow> ('v, 's, 'w) state
    \<Rightarrow> (unit, ('v, 's, 'w) state) outcome" where
  "use_certificate_file_throwing this filename format s =
     (case use_certificate_file this filename format default_error_code s of
        Returned (r, ec) s' \<Rightarrow>
          if failed ec then Thrown (system_error ec) s' else Returned () s'
      | Thrown e s' \<Rightarrow> Thrown e s'
      | Undefined \<Rightarrow> Undefined)"

definition use_private_key_file_throwing ::
  "'w engine \<Rightarrow> ctx_ptr \<Rightarrow> string \<Rightarrow> file_format \<Rightarrow> ('v, 's, 'w) state
    \<Rightarrow> (unit, ('v, 's, 'w) state) outcome" where
  "use_private_key_file_throwing E this filename format s =
     (case use_private_key_file E this filename format default_error_code s of
        Returned (r, ec) s' \<Rightarrow>
          if failed ec then Thrown (system_error ec) s' else Returned () s'
      | Thrown e s' \<Rightarrow> Thrown e s'
      | Undefined \<Rightarrow> Undefined)"

definition use_tmp_dh_file_throwing ::
  "ctx_ptr \<Rightarrow> string \<Rightarrow> ('v, 's, 'w) state
    \<Rightarrow> (unit, ('v, 's, 'w) state) outcome" where
  "use_tmp_dh_file_throwing this filename s =
     (case use_tmp_dh_file this filename default_error_code s of
        Returned (r, ec) s' \<Rightarrow>
          if failed ec then Thrown (system_error ec) s' else Returned () s'
      | Thrown e s' \<Rightarrow> Thrown e s'
      | Undefined \<Rightarrow> Undefined)"

definition use_certificate_throwing ::
  "ctx_ptr \<Rightarrow> string \<Rightarrow> file_format \<Rightarrow> ('v, 's, 'w) state
    \<Rightarrow> (unit, ('v, 's, 'w) state) outcome" where
  "use_certificate_throwing this buf format s =
     (case use_certificate this buf format default_error_code s of
        Returned (r, ec) s' \<Rightarrow>
          if failed ec then Thrown (system_error ec) s' else Returned () s'
      | Thrown e s' \<Rightarrow> Thrown e s'
      | Undefined \<Rightarrow> Undefined)"

definition use_private_key_throwing ::
  "'w engine \<Rightarrow> ctx_ptr \<Rightarrow> string \<Rightarrow> file_format \<Rightarrow> ('v, 's, 'w) state
    \<Rightarrow> (unit, ('v, 's, 'w) state) outcome" where
  "use_private_key_throwing E this buf format s =
     (case use_private_key E this buf format default_error_code s of
        Returned (r, ec) s' \<Rightarrow>
          if failed ec then Thrown (system_error ec) s' else Returned () s'
      | Thrown e s' \<Rightarrow> Thrown e s'
      | Undefined \<Rightarrow> Undefined)"

definition use_tmp_dh_throwing ::
  "ctx_ptr \<Rightarrow> string \<Rightarrow> ('v, 's, 'w) state
    \<Rightarrow> (unit, ('v, 's, 'w) state) outcome" where
  "use_tmp_dh_throwing this buf s =
     (case use_tmp_dh this buf default_error_code s of
        Returned (r, ec) s' \<Rightarrow>
          if failed ec then Thrown (system_error ec) s' else Returned () s'
      | Thrown e s' \<Rightarrow> Thrown e s'
      | Undefined \<Rightarrow> Undefined)"

section \<open>The mutator interface as a whole\<close>

text \<open>One constructor for every configuration mutator of \<open>context\<close>, with its arguments.\<close>

datatype ('v, 's) mutator =
  Set_options "64 word"
| Clear_options
| Set_default_verify_paths
| Set_verify_mode "32 word"
| Set_verify_callback "'v option"
| Use_passphrase string
| Use_certificate_file string file_format
| Use_private_key_file string file_format
| Use_tmp_dh_file string
| Use_certificate string file_format
| Use_private_key string file_format
| Use_tmp_dh string
| Set_servername_callback "'s option"
| Set_verify_trust string file_format

text \<open>The value of the out-parameter after a non-throwing call.\<close>

fun out_param :: "(error_code \<times> error_code, 'st) outcome \<Rightarrow> (error_code, 'st) outcome" where
  "out_param (Returned (r, ec) s) = Returned ec s"
| "out_param (Thrown e s) = Thrown e s"
| "out_param Undefined = Undefined"

text \<open>The non-throwing overload of each mutator.\<close>

fun non_throwing ::
  "'w engine \<Rightarrow> ctx_ptr \<Rightarrow> ('v, 's) mutator \<Rightarrow> error_code \<Rightarrow> ('v, 's, 'w) state
    \<Rightarrow> (error_code, ('v, 's, 'w) state) outcome" where
  "non_throwing E this (Set_options x) ec s = out_param (set_options this x ec s)"
| "non_throwing E this Clear_options ec s = clear_options this ec s"
| "non_throwing E this Set_default_verify_paths ec s =
     out_param (set_default_verify_paths E this ec s)"
| "non_throwing E this (Set_verify_mode x) ec s = out_param (set_verify_mode this x ec s)"
| "non_throwing E this (Set_verify_callback x) ec s =
     out_param (set_verify_callback this x ec s)"
| "non_throwing E this (Use_passphrase x) ec s = out_param (use_passphrase this x ec s)"
| "non_throwing E this (Use_certificate_file x f) ec s =
     out_param (use_certificate_file this x f ec s)"
| "non_throwing E this (Use_private_key_file x f) ec s =
     out_param (use_private_key_file E this x f ec s)"
| "non_throwing E this (Use_tmp_dh_file x) ec s = out_param (use_tmp_dh_file this x ec s)"
| "non_throwing E this (Use_certificate x f) ec s = out_param (use_certificate this x f ec s)"
| "non_throwing E this (Use_private_key x f) ec s =
     out_param (use_private_key E this x f ec s)"
| "non_throwing E this (Use_tmp_dh x) ec s = out_param (use_tmp_dh this x ec s)"
| "non_throwing E this (Set_servername_callback x) ec s =
     out_param (set_servername_callback this x ec s)"
| "non_throwing E this (Set_verify_trust x f) ec s =
     out_param (set_verify_trust E this x f ec s)"

text \<open>
  The throwing overload of each mutator; \<open>None\<close> where the class declares none: lines
  350-376 declare \<open>set_servername_callback\<close> and \<open>set_verify_trust\<close> with an
  \<open>error_code&\<close> parameter only.
\<close>

fun throwing ::
  "'w engine \<Rightarrow> ctx_ptr \<Rightarrow> ('v, 's) mutator
    \<Rightarrow> (('v, 's, 'w) state \<Rightarrow> (unit, ('v, 's, 'w) state) outcome) option" where
  "throwing E this (Set_options x) = Some (set_options_throwing this x)"
| "throwing E this Clear_options = Some (clear_options_throwing this)"
| "throwing E this Set_default_verify_paths = Some (set_default_verify_paths_throwing E this)"
| "throwing E this (Set_verify_mode x) = Some (set_verify_mode_throwing this x)"
| "throwing E this (Set_verify_callback x) = Some (set_verify_callback_throwing this x)"
| "throwing E this (Use_passphrase x) = Some (use_passphrase_throwing this x)"
| "throwing E this (Use_certificate_file x f) = Some (use_certificate_file_throwing this x f)"
| "throwing E this (Use_private_key_file x f) =
     Some (use_private_key_file_throwing E this x f)"
| "throwing E this (Use_tmp_dh_file x) = Some (use_tmp_dh_file_throwing this x)"
| "throwing E this (Use_certificate x f) = Some (use_certificate_throwing this x f)"
| "throwing E this (Use_private_key x f) = Some (use_private_key_throwing E this x f)"
| "throwing E this (Use_tmp_dh x) = Some (use_tmp_dh_throwing this x)"
| "throwing E this (Set_servername_callback x) = None"
| "throwing E this (Set_verify_trust x f) = None"

text \<open>
  The throwing form in the words of the specification: invoke the non-throwing form (on
  a new out-parameter), and if the out-parameter indicates failure, raise an error that
  carries the same code.
\<close>

definition raise_on_failure ::
  "(error_code \<Rightarrow> 'st \<Rightarrow> (error_code, 'st) outcome) \<Rightarrow> 'st \<Rightarrow> (unit, 'st) outcome" where
  "raise_on_failure f s =
     (case f default_error_code s of
        Returned ec s' \<Rightarrow> if failed ec then Thrown (system_error ec) s' else Returned () s'
      | Thrown e s' \<Rightarrow> Thrown e s'
      | Undefined \<Rightarrow> Undefined)"

section \<open>The history of a store\<close>

text \<open>
  The argument stored last by the \<open>use_certificate_file\<close> calls of a sequence of
  mutator calls, and the one stored last by its \<open>use_certificate\<close> calls; the second
  argument is the answer for a sequence with no such call.
\<close>

fun last_certificate_file :: "('v, 's) mutator list \<Rightarrow> string \<Rightarrow> string" where
  "last_certificate_file [] a = a"
| "last_certificate_file (Use_certificate_file x f # mus) a = last_certificate_file mus x"
| "last_certificate_file (mu # mus) a = last_certificate_file mus a"

fun last_certificate :: "('v, 's) mutator list \<Rightarrow> string \<Rightarrow> string" where
  "last_certificate [] a = a"
| "last_certificate (Use_certificate x f # mus) a = last_certificate mus x"
| "last_certificate (mu # mus) a = last_certificate mus a"

text \<open>
  A log lists the non-throwing mutator calls of a program run in order, each with the
  address of the store it worked on; \<open>calls_on p\<close> picks the calls on the store at
  \<open>p\<close>.
\<close>

definition calls_on ::
  "impl_ptr \<Rightarrow> (impl_ptr \<times> ('v, 's) mutator) list \<Rightarrow> ('v, 's) mutator list" where
  "calls_on p log = map snd (filter (\<lambda>e. fst e = p) log)"

text \<open>
  \<open>history E log s\<close>: the program has reached \<open>s\<close> from a state with no context and
  no store by constructing, moving, destroying and configuring contexts, and \<open>log\<close>
  is the log of its mutator calls (a call on a context without a store works on no
  store and is not logged).
\<close>

inductive history ::
  "'w engine \<Rightarrow> (impl_ptr \<times> ('v, 's) mutator) list \<Rightarrow> ('v, 's, 'w) state \<Rightarrow> bool"
  for E :: "'w engine" where
  no_store: "contexts s = Map.empty \<Longrightarrow> impls s = Map.empty \<Longrightarrow> history E [] s"
| constructed:
    "history E log s \<Longrightarrow> context_ctor E this m0 s = Returned () s' \<Longrightarrow> history E log s'"
| construction_failed:
    "history E log s \<Longrightarrow> context_ctor E this m0 s = Thrown e s' \<Longrightarrow> history E log s'"
| move_constructed:
    "history E log s \<Longrightarrow> context_move_ctor E this other s = Returned () s' \<Longrightarrow> history E log s'"
| move_assigned:
    "history E log s \<Longrightarrow> move_assign E this other s = Returned () s' \<Longrightarrow> history E log s'"
| destroyed:
    "history E log s \<Longrightarrow> context_dtor E this s = Returned () s' \<Longrightarrow> history E log s'"
| called:
    "history E log s \<Longrightarrow> non_throwing E this mu ec s = Returned ec' s' \<Longrightarrow>
     history E (log @ (case deref s this of Some (p, i) \<Rightarrow> [(p, mu)] | None \<Rightarrow> [])) s'"

text \<open>
  What the log says about a state: every store holds the certificate file name and the
  certificate buffer stored last by the calls on it (empty if there was none), and
  every address in use is below the allocator's next one.
\<close>

definition recorded ::
  "(impl_ptr \<times> ('v, 's) mutator) list \<Rightarrow> ('v, 's, 'w) state \<Rightarrow> bool" where
  "recorded log s =
     ((\<forall>p i. impls s p = Some i \<longrightarrow>
         p < next_impl s
         \<and> certificate_file i = last_certificate_file (calls_on p log) []
         \<and> certificate i = last_certificate (calls_on p log) [])
      \<and> (\<forall>e \<in> set log. fst e < next_impl s))"

section \<open>Reachable states\<close>

text \<open>
  The states a program can reach: it starts with no context, and constructs, moves,
  destroys and configures contexts. In such a state no two contexts hold the same
  store (\<open>exclusive\<close>): \<open>m_impl\<close> is only ever set from \<open>std::make_shared\<close> or moved.
\<close>

definition exclusive :: "('v, 's, 'w) state \<Rightarrow> bool" where
  "exclusive s =
     ((\<forall>a b p. contexts s a = Some (Some p) \<and> contexts s b = Some (Some p) \<longrightarrow> a = b)
      \<and> (\<forall>a p. contexts s a = Some (Some p) \<longrightarrow> p < next_impl s))"

inductive reachable :: "'w engine \<Rightarrow> ('v, 's, 'w) state \<Rightarrow> bool" for E :: "'w engine" where
  no_context: "contexts s = Map.empty \<Longrightarrow> reachable E s"
| constructed: "reachable E s \<Longrightarrow> context_ctor E this m0 s = Returned () s' \<Longrightarrow> reachable E s'"
| construction_failed:
    "reachable E s \<Longrightarrow> context_ctor E this m0 s = Thrown e s' \<Longrightarrow> reachable E s'"
| move_constructed:
    "reachable E s \<Longrightarrow> context_move_ctor E this other s = Returned () s' \<Longrightarrow> reachable E s'"
| move_assigned:
    "reachable E s \<Longrightarrow> move_assign E this other s = Returned () s' \<Longrightarrow> reachable E s'"
| destroyed: "reachable E s \<Longrightarrow> context_dtor E this s = Returned () s' \<Longrightarrow> reachable E s'"
| called:
    "reachable E s \<Longrightarrow> non_throwing E this mu ec s = Returned ec' s' \<Longrightarrow> reachable E s'"

section \<open>A small engine and start state for concrete instances\<close>

text \<open>
  An engine whose state is the log of the native calls made so far. Allocation hands
  out a non-null handle; a key pair is rejected when the key is empty. The trust-install
  call returns the number of certificates processed or a negative error code (the
  comment at lines 370-371): 1 for a non-empty buffer, 0 for the empty PEM buffer (no
  certificate block found, none processed), and the parser error
  \<open>GNUTLS_E_ASN1_TAG_ERROR\<close> (-73) for the empty DER buffer.
\<close>

definition demo_engine :: "string list engine" where
  "demo_engine =
     \<lparr>gnutls_certificate_allocate_credentials =
        (\<lambda>w. (0, Suc (length w), w @ [''allocate_credentials''])),
      gnutls_certificate_free_credentials = (\<lambda>h w. w @ [''free_credentials'']),
      gnutls_certificate_set_known_dh_params = (\<lambda>h sp w. (0, w @ [''set_known_dh_params''])),
      gnutls_certificate_set_x509_system_trust = (\<lambda>h w. (0, w @ [''set_x509_system_trust''])),
      gnutls_certificate_set_x509_key_file2 =
        (\<lambda>h cf kf fmt pw fl w. (if kf = [] then - 64 else 0, w @ [''set_x509_key_file2''])),
      gnutls_certificate_set_x509_key_mem2 =
        (\<lambda>h c k fmt pw fl w. (if k = [] then - 34 else 0, w @ [''set_x509_key_mem2''])),
      gnutls_certificate_set_x509_trust_mem =
        (\<lambda>h ca fmt w.
           (if ca \<noteq> [] then 1 else if fmt = GNUTLS_X509_FMT_PEM then 0 else - 73,
            w @ [''set_x509_trust_mem''])),
      gnutls_strerror = (\<lambda>v. Some ''GnuTLS error'')\<rparr>"

text \<open>The same engine out of memory: allocation fails with \<open>GNUTLS_E_MEMORY_ERROR\<close> (-25).\<close>

definition exhausted_engine :: "string list engine" where
  "exhausted_engine =
     demo_engine\<lparr>gnutls_certificate_allocate_credentials := (\<lambda>w. (- 25, 0, w))\<rparr>"

text \<open>A state with no context and no \<open>impl\<close>.\<close>

definition start_state :: "(unit, unit, string list) state" where
  "start_state =
     \<lparr>contexts = Map.empty, impls = Map.empty, use_count = (\<lambda>p. 0), next_impl = 1,
      native = []\<rparr>"

text \<open>
  The state after \<open>context ctx(tls_server)\<close> at address 1 from the start state, on
  that engine: one context, holding the \<open>impl\<close> at address 1.
\<close>

definition demo_impl :: "(unit, unit) impl" where
  "demo_impl =
     \<lparr>m = tls_server, parent = Some 1, cred = 1, verify = 0, opts = 0,
      certificate_file = [], private_key_file = [], certificate = [],
      private_key = [], passphrase = [], verify_callback = None,
      servername_callback = None\<rparr>"

definition demo_state :: "(unit, unit, string list) state" where
  "demo_state =
     \<lparr>contexts = [1 \<mapsto> Some 1], impls = [1 \<mapsto> demo_impl], use_count = (\<lambda>p. 0)(1 := 1),
      next_impl = 2, native = [''allocate_credentials'', ''set_known_dh_params'']\<rparr>"

text \<open>
  The state after a second \<open>context ctx2(tls_client)\<close> at address 2: two contexts,
  each holding an \<open>impl\<close> of its own.
\<close>

definition demo_impl2 :: "(unit, unit) impl" where
  "demo_impl2 =
     \<lparr>m = tls_client, parent = Some 2, cred = 3, verify = 0, opts = 0,
      certificate_file = [], private_key_file = [], certificate = [],
      private_key = [], passphrase = [], verify_callback = None,
      servername_callback = None\<rparr>"

definition demo_state2 :: "(unit, unit, string list) state" where
  "demo_state2 =
     \<lparr>contexts = [1 \<mapsto> Some 1, 2 \<mapsto> Some 2], impls = [1 \<mapsto> demo_impl, 2 \<mapsto> demo_impl2],
      use_count = (\<lambda>p. 0)(1 := 1, 2 := 1), next_impl = 3,
      native = [''allocate_credentials'', ''set_known_dh_params'',
                ''allocate_credentials'', ''set_known_dh_params'']\<rparr>"

section \<open>Decoding the packed constant\<close>

lemma is_server_iff:
  "is_server i = (m i \<in> {tls_server, tlsv1_server, tlsv11_server, tlsv12_server,
     tlsv13_server, sslv23_server})"
  by (cases "m i") (simp_all add: is_server_def)

lemma is_server_bit1: "is_server i = bit (method_value (m i)) 1"
  by (cases "m i") (simp_all add: is_server_def bit_iff_odd)

text \<open>
  C2. The comment at line 70 gives the encoding \<open>0xXY.. => TLS X.Y\<close>: the version sits
  in bits 8-15 of the constant. \<open>tls_version\<close> shifts by 16, so it yields 0 for every
  named constant, for \<open>tlsv12\<close> (0x1200) too, where the version byte is 0x12.
\<close>

theorem tls_version_always_zero:
  "tls_version i = 0 \<and> drop_bit 8 (method_value tlsv12) = (0x12 :: 32 word)"
  by (cases "m i") (simp_all add: tls_version_def drop_bit_eq_div)

section \<open>Basic facts\<close>

lemma deref_set_impl:
  "deref s this = Some (p, i) \<Longrightarrow> deref (set_impl p i' s) this = Some (p, i')"
  by (auto simp: deref_def set_impl_def split: option.splits)

lemma deref_native [simp]: "deref (s\<lparr>native := w\<rparr>) this = deref s this"
  by (simp add: deref_def split: option.splits)

lemma not_failed_default: "\<not> failed default_error_code"
  by (simp add: failed_def default_error_code_def)

lemma failed_operation_not_supported: "failed operation_not_supported"
  by (simp add: failed_def operation_not_supported_def EOPNOTSUPP_def)

lemma demo_ctor: "context_ctor demo_engine 1 tls_server start_state = Returned () demo_state"
  by (simp add: context_ctor_def impl_ctor_def demo_engine_def start_state_def demo_state_def
      demo_impl_def GNUTLS_E_SUCCESS_def)

lemma demo_deref: "deref demo_state 1 = Some (1, demo_impl)"
  by (simp add: deref_def demo_state_def)

section \<open>Stored bit-sets\<close>

text \<open>
  C6. On a context that holds a store, \<open>set_verify_mode(v)\<close> and \<open>set_options(x)\<close>
  return with the out-parameter as it was passed in, and the store read back afterwards
  is the old one with exactly \<open>verify = v\<close> (resp. \<open>opts = x\<close>), for every bit pattern;
  \<open>clear_options\<close> leaves \<open>opts = 0\<close> whatever it was before. The throwing forms do the
  same and return normally.
\<close>

theorem stored_bit_sets:
  assumes "deref s this = Some (p, i)"
  shows "(\<exists>s'. set_verify_mode this v ec s = Returned (ec, ec) s'
            \<and> deref s' this = Some (p, i\<lparr>verify := v\<rparr>))
       \<and> (\<exists>s'. set_options this x ec s = Returned (ec, ec) s'
            \<and> deref s' this = Some (p, i\<lparr>opts := x\<rparr>))
       \<and> (\<exists>s'. clear_options this ec s = Returned ec s'
            \<and> deref s' this = Some (p, i\<lparr>opts := 0\<rparr>))
       \<and> (\<exists>s'. set_verify_mode_throwing this v s = Returned () s'
            \<and> deref s' this = Some (p, i\<lparr>verify := v\<rparr>))
       \<and> (\<exists>s'. set_options_throwing this x s = Returned () s'
            \<and> deref s' this = Some (p, i\<lparr>opts := x\<rparr>))
       \<and> (\<exists>s'. clear_options_throwing this s = Returned () s'
            \<and> deref s' this = Some (p, i\<lparr>opts := 0\<rparr>))"
  using assms
  by (simp add: set_verify_mode_def set_options_def clear_options_def
      set_verify_mode_throwing_def set_options_throwing_def clear_options_throwing_def
      deref_set_impl not_failed_default)

theorem stored_bit_sets_witness:
  "(\<exists>s'. set_verify_mode 1 3 operation_not_supported demo_state
             = Returned (operation_not_supported, operation_not_supported) s'
            \<and> deref s' 1 = Some (1, demo_impl\<lparr>verify := 3\<rparr>))
   \<and> (\<exists>s'. clear_options_throwing 1 demo_state = Returned () s'
            \<and> deref s' 1 = Some (1, demo_impl\<lparr>opts := 0\<rparr>))"
  using stored_bit_sets [OF demo_deref, of 3 operation_not_supported 0] by simp

section \<open>The Diffie-Hellman no-ops\<close>

text \<open>
  C7. \<open>use_tmp_dh\<close> and \<open>use_tmp_dh_file\<close>, for every argument, every incoming
  out-parameter and every state (they never touch \<open>m_impl\<close>), return the out-parameter
  unassigned and leave the whole state, the store and the engine included, as it was;
  their throwing forms return normally in the same state.
\<close>

theorem tmp_dh_no_effect:
  "use_tmp_dh this buf ec s = Returned (ec, ec) s
   \<and> use_tmp_dh_file this filename ec s = Returned (ec, ec) s
   \<and> use_tmp_dh_throwing this buf s = Returned () s
   \<and> use_tmp_dh_file_throwing this filename s = Returned () s"
  by (simp add: use_tmp_dh_def use_tmp_dh_file_def use_tmp_dh_throwing_def
      use_tmp_dh_file_throwing_def not_failed_default)

section \<open>Mutators that never assign the out-parameter\<close>

text \<open>
  C10. On a context that holds a store, each of \<open>set_options\<close>, \<open>clear_options\<close>,
  \<open>set_verify_mode\<close>, \<open>set_verify_callback\<close>, \<open>use_passphrase\<close>,
  \<open>use_certificate_file\<close>, \<open>use_certificate\<close>, \<open>use_tmp_dh\<close>, \<open>use_tmp_dh_file\<close>
  and \<open>set_servername_callback\<close> returns, and both the returned code (where one is
  returned) and the out-parameter after the call are the value \<open>ec\<close> passed in,
  whatever that value is: a failure passed in stays a failure.
\<close>

theorem never_failing_keep_ec:
  assumes "deref s this = Some (p, i)"
  shows "(\<exists>s'. set_options this x ec s = Returned (ec, ec) s')
       \<and> (\<exists>s'. clear_options this ec s = Returned ec s')
       \<and> (\<exists>s'. set_verify_mode this v ec s = Returned (ec, ec) s')
       \<and> (\<exists>s'. set_verify_callback this vcb ec s = Returned (ec, ec) s')
       \<and> (\<exists>s'. use_passphrase this pw ec s = Returned (ec, ec) s')
       \<and> (\<exists>s'. use_certificate_file this filename f ec s = Returned (ec, ec) s')
       \<and> (\<exists>s'. use_certificate this buf f ec s = Returned (ec, ec) s')
       \<and> (\<exists>s'. use_tmp_dh this buf ec s = Returned (ec, ec) s')
       \<and> (\<exists>s'. use_tmp_dh_file this filename ec s = Returned (ec, ec) s')
       \<and> (\<exists>s'. set_servername_callback this scb ec s = Returned (ec, ec) s')"
  using assms
  by (simp add: set_options_def clear_options_def set_verify_mode_def set_verify_callback_def
      use_passphrase_def use_certificate_file_def use_certificate_def use_tmp_dh_def
      use_tmp_dh_file_def set_servername_callback_def)

theorem never_failing_keep_ec_witness:
  "(\<exists>s'. use_passphrase 1 ''secret'' operation_not_supported demo_state
           = Returned (operation_not_supported, operation_not_supported) s')
   \<and> (\<exists>s'. clear_options 1 (error_code (- 49) ssl_category) demo_state
           = Returned (error_code (- 49) ssl_category) s')
   \<and> failed operation_not_supported"
  using never_failing_keep_ec [OF demo_deref, of _ operation_not_supported]
    never_failing_keep_ec [OF demo_deref, of _ "error_code (- 49) ssl_category"]
    failed_operation_not_supported
  by blast

section \<open>Installing trust from memory\<close>

text \<open>
  C5, as amended. On a context that holds a store, \<open>set_verify_trust\<close> makes the
  native trust-install call and returns; with \<open>ret\<close> the result of that call, the
  out-parameter (and the returned code) is \<open>error_code(ret, get_ssl_category())\<close>, a
  failure, when \<open>ret < 0\<close>, and is left as passed in otherwise. So on an out-parameter
  that was clear at the call, an error is reported if and only if the native result is
  negative. A buffer with no valid certificate yields an error only when the engine
  answers it with a negative status.
\<close>

theorem set_verify_trust_error:
  assumes "deref s this = Some (p, i)"
    and "gnutls_certificate_set_x509_trust_mem E (cred i) buf (native_format f) (native s)
           = (ret, w')"
  shows "\<exists>ec'. set_verify_trust E this buf f ec s = Returned (ec', ec') (s\<lparr>native := w'\<rparr>)
           \<and> (ret < 0 \<longrightarrow> ec' = error_code ret ssl_category \<and> failed ec')
           \<and> (\<not> ret < 0 \<longrightarrow> ec' = ec)
           \<and> (\<not> failed ec \<longrightarrow> (failed ec' \<longleftrightarrow> ret < 0))"
  using assms by (auto simp: set_verify_trust_def failed_def Let_def)

theorem set_verify_trust_error_witness:
  "\<exists>ec'. set_verify_trust demo_engine 1 [] der default_error_code demo_state
           = Returned (ec', ec') (demo_state\<lparr>native := native demo_state @ [''set_x509_trust_mem'']\<rparr>)
     \<and> ec' = error_code (- 73) ssl_category \<and> failed ec'"
  using set_verify_trust_error [OF demo_deref, of demo_engine "[]" der "- 73"
      "native demo_state @ [''set_x509_trust_mem'']" default_error_code]
  by (simp add: demo_engine_def native_format_def)

text \<open>
  The claim as first stated also promised an error for every buffer with zero valid
  certificates. An engine that answers such a buffer with 0, the number of certificates
  it processed, gets no error from \<open>set_verify_trust\<close>: the test is \<open>ret < 0\<close>.
\<close>

theorem set_verify_trust_counterexample:
  "set_verify_trust demo_engine 1 [] pem default_error_code demo_state
     = Returned (default_error_code, default_error_code)
         (demo_state\<lparr>native := native demo_state @ [''set_x509_trust_mem'']\<rparr>)
   \<and> \<not> failed default_error_code"
  using demo_deref
  by (simp add: set_verify_trust_def demo_engine_def native_format_def not_failed_default)

section \<open>Construction\<close>

text \<open>
  C8. For every role/version constant \<open>m0\<close>: when the engine's allocation call
  succeeds, handing out the handle \<open>h\<close>, the constructor returns and
  \<open>native_handle()\<close> of the new context returns \<open>h\<close>, a non-null handle when the
  engine allocated one. When the allocation call fails, the constructor never returns
  (there is no context and no error code to inspect): it throws
  \<open>std::runtime_error\<close> with the engine's message for the status.
\<close>

theorem context_construction:
  assumes "gnutls_certificate_allocate_credentials E (native s) = (ret, h, w')"
  shows "(ret = GNUTLS_E_SUCCESS \<longrightarrow>
            (\<exists>s'. context_ctor E this m0 s = Returned () s'
               \<and> native_handle this s' = Returned h s'))
       \<and> (ret = GNUTLS_E_SUCCESS \<and> h \<noteq> 0 \<longrightarrow>
            (\<exists>s' h'. context_ctor E this m0 s = Returned () s'
               \<and> native_handle this s' = Returned h' s' \<and> h' \<noteq> 0))
       \<and> (ret \<noteq> GNUTLS_E_SUCCESS \<longrightarrow>
            (\<forall>s'. context_ctor E this m0 s \<noteq> Returned () s')
            \<and> (\<forall>msg. gnutls_strerror E ret = Some msg \<longrightarrow>
                 context_ctor E this m0 s
                   = Thrown (runtime_error
                       (''gnutls_certificate_allocate_credentials failed: '' @ msg))
                       (s\<lparr>native := w'\<rparr>)))"
  using assms
  by (auto simp: context_ctor_def impl_ctor_def native_handle_def deref_def
      split: prod.splits option.splits)

theorem context_construction_witness:
  "(\<exists>s' h'. context_ctor demo_engine 1 tls_server start_state = Returned () s'
        \<and> native_handle 1 s' = Returned h' s' \<and> h' \<noteq> 0)
   \<and> context_ctor exhausted_engine 1 tlsv12_client start_state
       = Thrown (runtime_error ''gnutls_certificate_allocate_credentials failed: GnuTLS error'')
           start_state"
  using context_construction
      [of demo_engine start_state 0 1 "[''allocate_credentials'']" 1 tls_server]
    context_construction [of exhausted_engine start_state "- 25" 0 "[]" 1 tlsv12_client]
  by (simp add: demo_engine_def exhausted_engine_def start_state_def GNUTLS_E_SUCCESS_def)

section \<open>Move assignment\<close>

lemma demo_ctor2: "context_ctor demo_engine 2 tls_client demo_state = Returned () demo_state2"
  by (simp add: context_ctor_def impl_ctor_def demo_engine_def demo_state_def demo_state2_def
      demo_impl2_def GNUTLS_E_SUCCESS_def numeral_3_eq_3)

lemma demo_deref2: "deref demo_state2 2 = Some (2, demo_impl2)"
  by (simp add: deref_def demo_state2_def)

lemma deref_null:
  "contexts s this = Some None \<Longrightarrow> deref s this = None"
  by (simp add: deref_def)

lemmas non_throwing_defs =
  set_options_def clear_options_def set_default_verify_paths_def set_verify_mode_def
  set_verify_callback_def use_passphrase_def use_certificate_file_def
  use_private_key_file_def use_tmp_dh_file_def use_certificate_def use_private_key_def
  use_tmp_dh_def set_servername_callback_def set_verify_trust_def

text \<open>
  On a context without a store every mutator but the two no-ops dereferences a null
  \<open>m_impl\<close>.
\<close>

lemma non_throwing_no_store:
  assumes "deref s this = None"
  shows "non_throwing E this mu ec s = Undefined
       \<or> (\<exists>x. mu = Use_tmp_dh x) \<or> (\<exists>x. mu = Use_tmp_dh_file x)"
  using assms by (cases mu) (simp_all add: non_throwing_defs)

lemma release_contexts [simp]: "contexts (release E q s) = contexts s"
  by (simp add: release_def split: option.splits)

lemma release_impls_other:
  "q \<noteq> Some p \<Longrightarrow> impls (release E q s) p = impls s p"
  by (auto simp: release_def split: option.splits)

lemma release_next_impl [simp]: "next_impl (release E q s) = next_impl s"
  by (simp add: release_def split: option.splits)

lemma set_impl_frame [simp]:
  "contexts (set_impl p i s) = contexts s" "next_impl (set_impl p i s) = next_impl s"
  by (simp_all add: set_impl_def)

lemma move_assign_frame:
  assumes "move_assign E this other s = Returned () s'"
  shows "\<exists>tmp. contexts s other = Some tmp
           \<and> contexts s' = (contexts s)(other \<mapsto> None, this \<mapsto> tmp)
           \<and> next_impl s' = next_impl s"
  using assms
  by (auto simp: move_assign_def Let_def split: option.splits if_splits)

lemma exclusive_move:
  assumes "exclusive s" and "contexts s other = Some tmp"
    and "contexts s' = (contexts s)(other \<mapsto> None, this \<mapsto> tmp)"
    and "next_impl s' = next_impl s"
  shows "exclusive s'"
  using assms unfolding exclusive_def
  by (auto split: if_splits)

lemma non_throwing_frame:
  assumes "non_throwing E this mu ec s = Returned ec' s'"
  shows "contexts s' = contexts s \<and> next_impl s' = next_impl s"
  using assms
  by (cases mu)
    (auto simp: non_throwing_defs Let_def split: option.splits prod.splits if_splits)

lemma reachable_exclusive: "reachable E s \<Longrightarrow> exclusive s"
proof (induction rule: reachable.induct)
  case (no_context s)
  then show ?case by (simp add: exclusive_def)
next
  case (constructed s this m0 s')
  from constructed.hyps(2) obtain i w' where
    "s' = s\<lparr>contexts := (contexts s)(this \<mapsto> Some (next_impl s)),
            impls := (impls s)(next_impl s \<mapsto> i),
            use_count := (use_count s)(next_impl s := 1),
            next_impl := Suc (next_impl s), native := w'\<rparr>"
    by (auto simp: context_ctor_def split: outcome.splits)
  with constructed.IH show ?case
    unfolding exclusive_def by (auto split: if_splits simp: less_Suc_eq)
next
  case (construction_failed s this m0 e s')
  then show ?case
    by (auto simp: context_ctor_def exclusive_def split: outcome.splits)
next
  case (move_constructed s this other s')
  let ?s0 = "s\<lparr>contexts := (contexts s)(this \<mapsto> None)\<rparr>"
  have "exclusive ?s0"
    using move_constructed.IH unfolding exclusive_def by (auto split: if_splits)
  moreover from move_constructed.hyps(2) have "move_assign E this other ?s0 = Returned () s'"
    by (simp add: context_move_ctor_def)
  ultimately show ?case
    using move_assign_frame exclusive_move by blast
next
  case (move_assigned s this other s')
  then show ?case
    using move_assign_frame exclusive_move by blast
next
  case (destroyed s this s')
  then show ?case
    unfolding exclusive_def
    by (auto simp: context_dtor_def Let_def split: option.splits if_splits)
next
  case (called s this mu ec ec' s')
  then show ?case
    using non_throwing_frame [OF called.hyps(2)] by (simp add: exclusive_def)
qed

text \<open>
  So in a reachable state two distinct contexts never hold the same store.
\<close>

lemma reachable_distinct_stores:
  assumes "reachable E s" and "this \<noteq> other"
    and "deref s other = Some (p, i)" and "contexts s this = Some q"
  shows "q \<noteq> Some p"
proof -
  from assms(3) have "contexts s other = Some (Some p)"
    by (auto simp: deref_def split: option.splits)
  with reachable_exclusive [OF assms(1)] assms(2,4) show ?thesis
    unfolding exclusive_def by blast
qed

text \<open>
  C4. Let \<open>this\<close> and \<open>other\<close> be two distinct live contexts, \<open>other\<close> holding the
  store \<open>i\<close> at address \<open>p\<close> and \<open>this\<close> not holding the same store (which is so
  in every reachable state, \<open>reachable_distinct_stores\<close>). Then
  \<open>this = std::move(other)\<close> returns; afterwards \<open>native_handle()\<close> of \<open>this\<close> is
  the handle \<open>native_handle()\<close> of \<open>other\<close> returned before, \<open>this\<close> holds the same
  store with \<open>parent\<close> pointing to \<open>this\<close> and nothing else changed in it, and
  \<open>m_impl\<close> of \<open>other\<close> is null: its \<open>native_handle()\<close> and every mutator that
  touches the store are undefined on it.
\<close>

theorem move_assignment:
  assumes "this \<noteq> other"
    and "deref s other = Some (p, i)"
    and "contexts s this = Some q"
    and "q \<noteq> Some p"
  shows "native_handle other s = Returned (cred i) s
       \<and> (\<exists>s'. move_assign E this other s = Returned () s'
             \<and> native_handle this s' = Returned (cred i) s'
             \<and> deref s' this = Some (p, i\<lparr>parent := Some this\<rparr>)
             \<and> contexts s' other = Some None
             \<and> native_handle other s' = Undefined
             \<and> (\<forall>mu ec. non_throwing E other mu ec s' = Undefined
                   \<or> (\<exists>x. mu = Use_tmp_dh x) \<or> (\<exists>x. mu = Use_tmp_dh_file x)))"
proof -
  from assms(2) have cp: "contexts s other = Some (Some p)" and ip: "impls s p = Some i"
    by (auto simp: deref_def split: option.splits)
  define s2 where "s2 = s\<lparr>contexts := (contexts s)(other \<mapsto> None, this \<mapsto> Some p)\<rparr>"
  define s3 where "s3 = release E q s2"
  define s' where "s' = set_impl p (i\<lparr>parent := Some this\<rparr>) s3"
  have c3: "contexts s3 = (contexts s)(other \<mapsto> None, this \<mapsto> Some p)"
    by (simp add: s3_def s2_def)
  have i3: "impls s3 p = Some i"
    using assms(4) ip by (simp add: s3_def s2_def release_impls_other)
  have d3: "deref s3 this = Some (p, i)"
    using c3 i3 by (simp add: deref_def)
  have mv: "move_assign E this other s = Returned () s'"
    using assms(1,3) cp d3
    by (simp add: move_assign_def Let_def s'_def s3_def s2_def)
  have dthis: "deref s' this = Some (p, i\<lparr>parent := Some this\<rparr>)"
    using d3 by (simp add: s'_def deref_set_impl)
  have cother: "contexts s' other = Some None"
    using assms(1) c3 by (simp add: s'_def set_impl_def)
  have dother: "deref s' other = None"
    using cother by (rule deref_null)
  have "native_handle other s = Returned (cred i) s"
    using assms(2) by (simp add: native_handle_def)
  moreover have "native_handle this s' = Returned (cred i) s'"
    using dthis by (simp add: native_handle_def)
  moreover have "native_handle other s' = Undefined"
    using dother by (simp add: native_handle_def)
  moreover have "\<forall>mu ec. non_throwing E other mu ec s' = Undefined
                   \<or> (\<exists>x. mu = Use_tmp_dh x) \<or> (\<exists>x. mu = Use_tmp_dh_file x)"
    using non_throwing_no_store [OF dother] by blast
  ultimately show ?thesis
    using mv dthis cother by blast
qed

theorem move_assignment_witness:
  "native_handle 2 demo_state2 = Returned 3 demo_state2
   \<and> (\<exists>s'. move_assign demo_engine 1 2 demo_state2 = Returned () s'
         \<and> native_handle 1 s' = Returned 3 s'
         \<and> deref s' 1 = Some (2, demo_impl2\<lparr>parent := Some 1\<rparr>)
         \<and> contexts s' 2 = Some None
         \<and> native_handle 2 s' = Undefined)"
proof -
  have a: "(1::nat) \<noteq> 2" by simp
  have c: "contexts demo_state2 1 = Some (Some 1)" by (simp add: demo_state2_def)
  have d: "Some (1::nat) \<noteq> Some 2" by simp
  have e: "cred demo_impl2 = 3" by (simp add: demo_impl2_def)
  show ?thesis
    using move_assignment [OF a demo_deref2 c d, of demo_engine] unfolding e by blast
qed

text \<open>
  A context move-assigned from itself keeps its store: the premise that the two
  contexts are distinct is needed for the source to end up empty.
\<close>

lemma self_move_assignment:
  assumes "deref s this = Some (p, i)"
  shows "\<exists>s'. move_assign E this this s = Returned () s'
           \<and> deref s' this = Some (p, i\<lparr>parent := Some this\<rparr>)"
  using assms
  by (auto simp: move_assign_def Let_def release_def deref_def set_impl_def
      split: option.splits)

section \<open>Throwing and non-throwing forms\<close>

lemmas throwing_defs =
  set_options_throwing_def clear_options_throwing_def set_default_verify_paths_throwing_def
  set_verify_mode_throwing_def set_verify_callback_throwing_def use_passphrase_throwing_def
  use_certificate_file_throwing_def use_private_key_file_throwing_def
  use_tmp_dh_file_throwing_def use_certificate_throwing_def use_private_key_throwing_def
  use_tmp_dh_throwing_def

lemma case_out_param:
  "(case out_param out of Returned ec s' \<Rightarrow> F ec s' | Thrown e s' \<Rightarrow> T e s' | Undefined \<Rightarrow> U) =
     (case out of Returned (r, ec) s' \<Rightarrow> F ec s' | Thrown e s' \<Rightarrow> T e s' | Undefined \<Rightarrow> U)"
  by (cases out) auto

text \<open>
  C3, as amended. Every configuration mutator but \<open>set_servername_callback\<close> and
  \<open>set_verify_trust\<close> has a throwing form beside the non-throwing one; these two have
  the non-throwing form only. Where the throwing form exists, in every state and for
  every argument it does exactly this: invoke the non-throwing form on a new
  out-parameter, then throw \<open>system_error\<close> carrying that out-parameter if and only if
  it indicates failure (the state changes of the non-throwing form stay).
\<close>

theorem throwing_forms:
  "(throwing E this mu = None
      \<longleftrightarrow> (\<exists>x. mu = Set_servername_callback x) \<or> (\<exists>x f. mu = Set_verify_trust x f))
   \<and> (\<forall>g. throwing E this mu = Some g \<longrightarrow> g s = raise_on_failure (non_throwing E this mu) s)"
proof (cases mu)
  case Clear_options
  then show ?thesis
    by (simp add: clear_options_throwing_def raise_on_failure_def)
qed (simp_all add: throwing_defs raise_on_failure_def case_out_param)

theorem throwing_forms_witness:
  "use_private_key_throwing demo_engine 1 ''key'' pem demo_state
     = raise_on_failure (non_throwing demo_engine 1 (Use_private_key ''key'' pem)) demo_state
   \<and> use_private_key_throwing demo_engine 1 ''key'' pem demo_state
     = Thrown (system_error operation_not_supported) demo_state"
proof -
  have "use_private_key_throwing demo_engine 1 ''key'' pem demo_state
     = Thrown (system_error operation_not_supported) demo_state"
    using demo_deref
    by (simp add: use_private_key_throwing_def use_private_key_def demo_impl_def
        failed_operation_not_supported)
  then show ?thesis
    using throwing_forms [of demo_engine 1 "Use_private_key ''key'' pem" demo_state]
    by simp
qed

text \<open>
  The claim as first stated gave every mutator both forms; the class declares no
  throwing \<open>set_verify_trust\<close> and no throwing \<open>set_servername_callback\<close>.
\<close>

theorem no_throwing_form_counterexample:
  "throwing demo_engine 1 (Set_verify_trust [] pem :: (unit, unit) mutator) = None
   \<and> throwing demo_engine 1 (Set_servername_callback None :: (unit, unit) mutator) = None"
  by simp

section \<open>Certificate before private key\<close>

lemma context_ctor_deref:
  assumes "context_ctor E this m0 s0 = Returned () s1"
  shows "\<exists>p i. deref s1 this = Some (p, i) \<and> certificate_file i = [] \<and> certificate i = []"
  using assms
  by (auto simp: context_ctor_def impl_ctor_def deref_def
      split: prod.splits option.splits if_splits outcome.splits)

lemma use_private_key_file_check:
  assumes "deref s this = Some (p, i)"
  shows "(certificate_file i = [] \<longrightarrow>
            use_private_key_file E this x f ec s
              = Returned (operation_not_supported, operation_not_supported) s)
       \<and> (certificate_file i \<noteq> [] \<longrightarrow>
            (\<exists>ec' s'. use_private_key_file E this x f ec s = Returned (ec', ec') s'
               \<and> (ec' = ec \<or> ec_category ec' = ssl_category)))"
  using assms
  by (auto simp: use_private_key_file_def Let_def split: prod.splits)

lemma use_private_key_check:
  assumes "deref s this = Some (p, i)"
  shows "(certificate i = [] \<longrightarrow>
            use_private_key E this x f ec s
              = Returned (operation_not_supported, operation_not_supported) s)
       \<and> (certificate i \<noteq> [] \<longrightarrow>
            (\<exists>ec' s'. use_private_key E this x f ec s = Returned (ec', ec') s'
               \<and> (ec' = ec \<or> ec_category ec' = ssl_category)))"
  using assms
  by (auto simp: use_private_key_def Let_def split: prod.splits)

lemma operation_not_supported_category:
  "ec_category operation_not_supported \<noteq> ssl_category"
  by (simp add: operation_not_supported_def)

lemma default_not_operation_not_supported:
  "default_error_code \<noteq> operation_not_supported"
  by (simp add: default_error_code_def operation_not_supported_def EOPNOTSUPP_def)

lemma deref_impls: "deref s c = Some (q, j) \<Longrightarrow> impls s q = Some j"
  by (auto simp: deref_def split: option.splits)

lemma deref_contexts: "deref s c = Some (q, j) \<Longrightarrow> contexts s c = Some (Some q)"
  by (auto simp: deref_def split: option.splits)

lemma use_certificate_stored:
  assumes "use_certificate this buf g ec0 s0 = Returned r s" and "deref s this = Some (p, i)"
  shows "certificate i = buf"
proof -
  from assms(1) obtain p0 i0 where
    d0: "deref s0 this = Some (p0, i0)" and s: "s = set_impl p0 (i0\<lparr>certificate := buf\<rparr>) s0"
    by (auto simp: use_certificate_def split: option.splits)
  from deref_set_impl [OF d0, of "i0\<lparr>certificate := buf\<rparr>"] s assms(2) show ?thesis
    by auto
qed

lemma use_certificate_file_stored:
  assumes "use_certificate_file this filename g ec0 s0 = Returned r s"
    and "deref s this = Some (p, i)"
  shows "certificate_file i = filename"
proof -
  from assms(1) obtain p0 i0 where
    d0: "deref s0 this = Some (p0, i0)"
    and s: "s = set_impl p0 (i0\<lparr>certificate_file := filename\<rparr>) s0"
    by (auto simp: use_certificate_file_def split: option.splits)
  from deref_set_impl [OF d0, of "i0\<lparr>certificate_file := filename\<rparr>"] s assms(2) show ?thesis
    by auto
qed

lemma demo_deref2_first: "deref demo_state2 1 = Some (1, demo_impl)"
  by (simp add: deref_def demo_state2_def)

text \<open>
  C1, as amended. In every state in which the context holds a store: if the
  certificate buffer stored in it is empty, \<open>use_private_key\<close> returns
  \<open>operation_not_supported\<close> in the out-parameter and as its result, and the state (the
  handle, the stored private key, the engine) is exactly as before; the same holds for
  \<open>use_private_key_file\<close> and the stored certificate file name. Emptiness of the
  stored string is the exact trigger: when it is not empty and the out-parameter did
  not already hold \<open>operation_not_supported\<close>, the call returns with an out-parameter
  other than \<open>operation_not_supported\<close>. The stored strings are empty in a state that
  the constructor of the context has just returned, and the stored buffer (file name)
  is empty again in a state that a \<open>use_certificate\<close> (\<open>use_certificate_file\<close>) call
  with a zero-length argument has just returned.
\<close>

theorem private_key_sequencing:
  assumes "deref s this = Some (p, i)"
  shows "(certificate i = [] \<longrightarrow>
            use_private_key E this buf f ec s
              = Returned (operation_not_supported, operation_not_supported) s)
       \<and> (certificate_file i = [] \<longrightarrow>
            use_private_key_file E this x f ec s
              = Returned (operation_not_supported, operation_not_supported) s)
       \<and> (certificate i \<noteq> [] \<and> ec \<noteq> operation_not_supported \<longrightarrow>
            (\<exists>ec' s'. use_private_key E this buf f ec s = Returned (ec', ec') s'
               \<and> ec' \<noteq> operation_not_supported))
       \<and> (certificate_file i \<noteq> [] \<and> ec \<noteq> operation_not_supported \<longrightarrow>
            (\<exists>ec' s'. use_private_key_file E this x f ec s = Returned (ec', ec') s'
               \<and> ec' \<noteq> operation_not_supported))
       \<and> (\<forall>s0 m0. context_ctor E this m0 s0 = Returned () s \<longrightarrow>
            certificate i = [] \<and> certificate_file i = [])
       \<and> (\<forall>s0 g ec0 r. use_certificate this [] g ec0 s0 = Returned r s \<longrightarrow> certificate i = [])
       \<and> (\<forall>s0 g ec0 r. use_certificate_file this [] g ec0 s0 = Returned r s \<longrightarrow>
            certificate_file i = [])"
proof -
  have ctor: "\<forall>s0 m0. context_ctor E this m0 s0 = Returned () s \<longrightarrow>
            certificate i = [] \<and> certificate_file i = []"
    using context_ctor_deref assms by fastforce
  have uc: "\<forall>s0 g ec0 r. use_certificate this [] g ec0 s0 = Returned r s \<longrightarrow> certificate i = []"
    using use_certificate_stored assms by blast
  have ucf: "\<forall>s0 g ec0 r. use_certificate_file this [] g ec0 s0 = Returned r s \<longrightarrow>
            certificate_file i = []"
    using use_certificate_file_stored assms by blast
  have chk: "(certificate i = [] \<longrightarrow>
            use_private_key E this buf f ec s
              = Returned (operation_not_supported, operation_not_supported) s)
       \<and> (certificate_file i = [] \<longrightarrow>
            use_private_key_file E this x f ec s
              = Returned (operation_not_supported, operation_not_supported) s)
       \<and> (certificate i \<noteq> [] \<and> ec \<noteq> operation_not_supported \<longrightarrow>
            (\<exists>ec' s'. use_private_key E this buf f ec s = Returned (ec', ec') s'
               \<and> ec' \<noteq> operation_not_supported))
       \<and> (certificate_file i \<noteq> [] \<and> ec \<noteq> operation_not_supported \<longrightarrow>
            (\<exists>ec' s'. use_private_key_file E this x f ec s = Returned (ec', ec') s'
               \<and> ec' \<noteq> operation_not_supported))"
    using use_private_key_check [OF assms, of E buf f ec]
      use_private_key_file_check [OF assms, of E x f ec]
      operation_not_supported_category
    by metis
  show ?thesis
    using chk ctor uc ucf by blast
qed

theorem private_key_sequencing_witness:
  "use_private_key demo_engine 1 ''KEY'' pem default_error_code demo_state2
     = Returned (operation_not_supported, operation_not_supported) demo_state2
   \<and> use_private_key_file demo_engine 1 ''key.pem'' pem default_error_code demo_state2
     = Returned (operation_not_supported, operation_not_supported) demo_state2
   \<and> (\<exists>ec' s'. use_private_key demo_engine 1 ''KEY'' pem default_error_code
          (set_impl 1 (demo_impl\<lparr>certificate := ''CERT''\<rparr>) demo_state2) = Returned (ec', ec') s'
        \<and> ec' \<noteq> operation_not_supported)"
proof -
  have d: "deref (set_impl 1 (demo_impl\<lparr>certificate := ''CERT''\<rparr>) demo_state2) 1
             = Some (1, demo_impl\<lparr>certificate := ''CERT''\<rparr>)"
    by (rule deref_set_impl [OF demo_deref2_first])
  have e: "certificate demo_impl = []" "certificate_file demo_impl = []"
    "certificate (demo_impl\<lparr>certificate := ''CERT''\<rparr>) \<noteq> []"
    by (simp_all add: demo_impl_def)
  show ?thesis
    using private_key_sequencing [OF demo_deref2_first,
        where E = demo_engine and buf = "''KEY''" and f = pem and ec = default_error_code
          and x = "''key.pem''"]
      private_key_sequencing [OF d,
        where E = demo_engine and buf = "''KEY''" and f = pem and ec = default_error_code
          and x = "''key.pem''"]
      e default_not_operation_not_supported
    by blast
qed

text \<open>
  The claim as first stated took "no certificate has ever been stored" for the exact
  trigger, so that a stored zero-length certificate would not raise the sequencing
  error. \<open>use_certificate\<close> stores a zero-length buffer without error, and
  \<open>use_private_key\<close> then fails with \<open>operation_not_supported\<close>: the test is
  \<open>certificate.empty()\<close>.
\<close>

theorem zero_length_certificate_counterexample:
  "use_certificate 1 [] pem default_error_code demo_state
     = Returned (default_error_code, default_error_code)
         (set_impl 1 (demo_impl\<lparr>certificate := []\<rparr>) demo_state)
   \<and> \<not> failed default_error_code
   \<and> use_private_key demo_engine 1 ''KEY'' pem default_error_code
         (set_impl 1 (demo_impl\<lparr>certificate := []\<rparr>) demo_state)
     = Returned (operation_not_supported, operation_not_supported)
         (set_impl 1 (demo_impl\<lparr>certificate := []\<rparr>) demo_state)"
  using demo_deref deref_set_impl [OF demo_deref, of "demo_impl\<lparr>certificate := []\<rparr>"]
  by (simp add: use_certificate_def use_private_key_def not_failed_default)

section \<open>The two certificate stores are independent\<close>

lemma non_throwing_store_frame:
  assumes "deref s this = Some (p, i)"
    and "non_throwing E c mu ec s = Returned ec' s'"
  shows "\<exists>i'. deref s' this = Some (p, i')
           \<and> certificate_file i' =
               (if contexts s c = Some (Some p)
                then (case mu of Use_certificate_file y g \<Rightarrow> y | _ \<Rightarrow> certificate_file i)
                else certificate_file i)
           \<and> certificate i' =
               (if contexts s c = Some (Some p)
                then (case mu of Use_certificate y g \<Rightarrow> y | _ \<Rightarrow> certificate i)
                else certificate i)"
  using assms
  by (cases mu)
    (auto simp: non_throwing_defs deref_def set_impl_def Let_def
      split: option.splits prod.splits if_splits)

lemma context_ctor_frame:
  assumes "deref s this = Some (p, i)"
    and "context_ctor E c m0 s = Returned () s'"
  shows "(\<exists>q j. deref s' c = Some (q, j) \<and> certificate_file j = [] \<and> certificate j = [])
       \<and> (c \<noteq> this \<and> p \<noteq> next_impl s \<longrightarrow> deref s' this = Some (p, i))"
  using assms
  by (auto simp: context_ctor_def impl_ctor_def deref_def
      split: prod.splits option.splits if_splits outcome.splits)

lemma release_impls_sub:
  "impls (release E q s) p = Some j \<Longrightarrow> impls s p = Some j"
  by (auto simp: release_def split: option.splits if_splits)

lemma move_assign_strings:
  assumes "move_assign E a b s = Returned () s'" and "impls s' q = Some j"
  shows "\<exists>j0. impls s q = Some j0 \<and> certificate_file j = certificate_file j0
           \<and> certificate j = certificate j0"
proof -
  from assms(1) obtain tmp old p i where
    s': "s' = set_impl p (i\<lparr>parent := Some a\<rparr>)
               (release E old (s\<lparr>contexts := (contexts s)(b \<mapsto> None, a \<mapsto> tmp)\<rparr>))"
    and d: "deref (release E old (s\<lparr>contexts := (contexts s)(b \<mapsto> None, a \<mapsto> tmp)\<rparr>)) a
              = Some (p, i)"
    by (auto simp: move_assign_def Let_def split: option.splits)
  from d have "impls (release E old (s\<lparr>contexts := (contexts s)(b \<mapsto> None, a \<mapsto> tmp)\<rparr>)) p
                 = Some i"
    by (rule deref_impls)
  then have "impls (s\<lparr>contexts := (contexts s)(b \<mapsto> None, a \<mapsto> tmp)\<rparr>) p = Some i"
    by (rule release_impls_sub)
  then have ip: "impls s p = Some i"
    by simp
  show ?thesis
  proof (cases "q = p")
    case True
    with assms(2) s' ip show ?thesis by (auto simp: set_impl_def)
  next
    case False
    with assms(2) s'
    have "impls (release E old (s\<lparr>contexts := (contexts s)(b \<mapsto> None, a \<mapsto> tmp)\<rparr>)) q
            = Some j"
      by (simp add: set_impl_def)
    then have "impls (s\<lparr>contexts := (contexts s)(b \<mapsto> None, a \<mapsto> tmp)\<rparr>) q = Some j"
      by (rule release_impls_sub)
    then show ?thesis by simp
  qed
qed

lemma context_move_ctor_strings:
  assumes "context_move_ctor E a b s = Returned () s'" and "impls s' q = Some j"
  shows "\<exists>j0. impls s q = Some j0 \<and> certificate_file j = certificate_file j0
           \<and> certificate j = certificate j0"
  using move_assign_strings [of E a b "s\<lparr>contexts := (contexts s)(a \<mapsto> None)\<rparr>" s' q j] assms
  by (simp add: context_move_ctor_def)

lemma context_dtor_strings:
  assumes "context_dtor E a s = Returned () s'" and "impls s' q = Some j"
  shows "\<exists>j0. impls s q = Some j0 \<and> certificate_file j = certificate_file j0
           \<and> certificate j = certificate j0"
proof (cases "contexts s a")
  case None
  with assms show ?thesis by (simp add: context_dtor_def)
next
  case (Some mi)
  show ?thesis
  proof (cases mi)
    case None
    with Some assms show ?thesis by (auto simp: context_dtor_def)
  next
    case (Some p)
    with \<open>contexts s a = Some mi\<close> assms(1) obtain i where
      ip: "impls s p = Some i"
      and s': "s' = (release E (Some p) (set_impl p (i\<lparr>parent := None\<rparr>) s))
                 \<lparr>contexts := (contexts (release E (Some p) (set_impl p (i\<lparr>parent := None\<rparr>) s)))
                    (a := None)\<rparr>"
      by (auto simp: context_dtor_def Let_def split: option.splits)
    from assms(2) s' have "impls (release E (Some p) (set_impl p (i\<lparr>parent := None\<rparr>) s)) q
                             = Some j"
      by simp
    then have "impls (set_impl p (i\<lparr>parent := None\<rparr>) s) q = Some j"
      by (rule release_impls_sub)
    with ip show ?thesis
      by (cases "q = p") (auto simp: set_impl_def)
  qed
qed

lemma lifecycle_strings:
  assumes "move_assign E a b s = Returned () s' \<or> context_move_ctor E a b s = Returned () s'
             \<or> context_dtor E a s = Returned () s'"
    and "deref s' c = Some (q, j)"
  shows "\<exists>j0. impls s q = Some j0 \<and> certificate_file j = certificate_file j0
           \<and> certificate j = certificate j0"
  using assms move_assign_strings context_move_ctor_strings context_dtor_strings deref_impls
  by metis

text \<open>
  C9. In every state in which the context \<open>this\<close> holds a store \<open>i\<close> at \<open>p\<close>:
  on a new out-parameter, \<open>use_private_key_file\<close> ends with the sequencing error
  exactly when the stored certificate file name is empty, whatever the stored
  certificate buffer is, and \<open>use_private_key\<close> exactly when the stored certificate
  buffer is empty, whatever the stored file name is. The two strings are written
  independently, each by its own call only: after any non-throwing mutator call, on
  this or any other context, \<open>this\<close> still holds the store at \<open>p\<close>, whose file name
  is the argument of the call if that was \<open>use_certificate_file\<close> on a context
  holding \<open>p\<close> and is unchanged otherwise, and whose buffer is the argument of the
  call if that was \<open>use_certificate\<close> on a context holding \<open>p\<close> and is unchanged
  otherwise. A constructor gives the new context a store with both strings empty and
  leaves the store of \<open>this\<close>, another context, as it is (the new store is put at the
  allocator's next address, which lies above every store of a program run,
  \<open>history_recorded\<close>); move assignment, move construction and destruction create no
  store and leave both strings of every store they keep.
\<close>

theorem certificate_stores_independent:
  assumes "deref s this = Some (p, i)"
  shows "((\<exists>r s'. use_private_key_file E this x f default_error_code s
                    = Returned (r, operation_not_supported) s')
            \<longleftrightarrow> certificate_file i = [])
       \<and> ((\<exists>r s'. use_private_key E this buf f default_error_code s
                    = Returned (r, operation_not_supported) s')
            \<longleftrightarrow> certificate i = [])
       \<and> (\<forall>c mu ec ec' s'. non_throwing E c mu ec s = Returned ec' s' \<longrightarrow>
            (\<exists>i'. deref s' this = Some (p, i')
               \<and> certificate_file i' =
                   (if contexts s c = Some (Some p)
                    then (case mu of Use_certificate_file y g \<Rightarrow> y | _ \<Rightarrow> certificate_file i)
                    else certificate_file i)
               \<and> certificate i' =
                   (if contexts s c = Some (Some p)
                    then (case mu of Use_certificate y g \<Rightarrow> y | _ \<Rightarrow> certificate i)
                    else certificate i)))
       \<and> (\<forall>c m0 s'. context_ctor E c m0 s = Returned () s' \<longrightarrow>
            (\<exists>q j. deref s' c = Some (q, j) \<and> certificate_file j = [] \<and> certificate j = [])
            \<and> (c \<noteq> this \<and> p \<noteq> next_impl s \<longrightarrow> deref s' this = Some (p, i)))
       \<and> (\<forall>a b s' c q j.
            (move_assign E a b s = Returned () s' \<or> context_move_ctor E a b s = Returned () s'
               \<or> context_dtor E a s = Returned () s')
            \<and> deref s' c = Some (q, j) \<longrightarrow>
            (\<exists>j0. impls s q = Some j0 \<and> certificate_file j = certificate_file j0
               \<and> certificate j = certificate j0))"
proof -
  have a: "(\<exists>r s'. use_private_key_file E this x f default_error_code s
                    = Returned (r, operation_not_supported) s')
            \<longleftrightarrow> certificate_file i = []"
    using use_private_key_file_check [OF assms, of E x f default_error_code]
      operation_not_supported_category default_not_operation_not_supported
    by (metis outcome.inject(1) prod.inject)
  have b: "(\<exists>r s'. use_private_key E this buf f default_error_code s
                    = Returned (r, operation_not_supported) s')
            \<longleftrightarrow> certificate i = []"
    using use_private_key_check [OF assms, of E buf f default_error_code]
      operation_not_supported_category default_not_operation_not_supported
    by (metis outcome.inject(1) prod.inject)
  have c: "\<forall>c mu ec ec' s'. non_throwing E c mu ec s = Returned ec' s' \<longrightarrow>
            (\<exists>i'. deref s' this = Some (p, i')
               \<and> certificate_file i' =
                   (if contexts s c = Some (Some p)
                    then (case mu of Use_certificate_file y g \<Rightarrow> y | _ \<Rightarrow> certificate_file i)
                    else certificate_file i)
               \<and> certificate i' =
                   (if contexts s c = Some (Some p)
                    then (case mu of Use_certificate y g \<Rightarrow> y | _ \<Rightarrow> certificate i)
                    else certificate i))"
    using non_throwing_store_frame [OF assms] by blast
  have d: "\<forall>c m0 s'. context_ctor E c m0 s = Returned () s' \<longrightarrow>
            (\<exists>q j. deref s' c = Some (q, j) \<and> certificate_file j = [] \<and> certificate j = [])
            \<and> (c \<noteq> this \<and> p \<noteq> next_impl s \<longrightarrow> deref s' this = Some (p, i))"
    using context_ctor_frame [OF assms] by blast
  have e: "\<forall>a b s' c q j.
            (move_assign E a b s = Returned () s' \<or> context_move_ctor E a b s = Returned () s'
               \<or> context_dtor E a s = Returned () s')
            \<and> deref s' c = Some (q, j) \<longrightarrow>
            (\<exists>j0. impls s q = Some j0 \<and> certificate_file j = certificate_file j0
               \<and> certificate j = certificate j0)"
    using lifecycle_strings by blast
  show ?thesis
    using a b c d e by blast
qed

theorem certificate_stores_independent_witness:
  "(\<exists>r s'. use_private_key_file demo_engine 1 ''key.pem'' pem default_error_code
        (set_impl 1 (demo_impl\<lparr>certificate := ''CERT''\<rparr>) demo_state2)
      = Returned (r, operation_not_supported) s')
   \<and> \<not> (\<exists>r s'. use_private_key demo_engine 1 ''KEY'' pem default_error_code
        (set_impl 1 (demo_impl\<lparr>certificate := ''CERT''\<rparr>) demo_state2)
      = Returned (r, operation_not_supported) s')
   \<and> (\<exists>i'. deref (set_impl 2 (demo_impl2\<lparr>certificate_file := ''cert.pem''\<rparr>) demo_state2) 1
          = Some (1, i') \<and> certificate_file i' = [])"
proof -
  have d: "deref (set_impl 1 (demo_impl\<lparr>certificate := ''CERT''\<rparr>) demo_state2) 1
             = Some (1, demo_impl\<lparr>certificate := ''CERT''\<rparr>)"
    by (rule deref_set_impl [OF demo_deref2_first])
  have e: "certificate_file (demo_impl\<lparr>certificate := ''CERT''\<rparr>) = []"
    "certificate (demo_impl\<lparr>certificate := ''CERT''\<rparr>) \<noteq> []"
    "certificate_file demo_impl = []"
    by (simp_all add: demo_impl_def)
  have call: "non_throwing demo_engine 2 (Use_certificate_file ''cert.pem'' pem)
                default_error_code demo_state2
              = Returned default_error_code
                  (set_impl 2 (demo_impl2\<lparr>certificate_file := ''cert.pem''\<rparr>) demo_state2)"
    using demo_deref2 by (simp add: use_certificate_file_def)
  have other: "contexts demo_state2 2 \<noteq> Some (Some 1)"
    by (simp add: demo_state2_def)
  note own = certificate_stores_independent [OF d,
        where E = demo_engine and x = "''key.pem''" and f = pem and buf = "''KEY''"]
  note frame = certificate_stores_independent [OF demo_deref2_first,
        where E = demo_engine and x = "''key.pem''" and f = pem and buf = "''KEY''"]
  from own e have 1: "\<exists>r s'. use_private_key_file demo_engine 1 ''key.pem'' pem default_error_code
        (set_impl 1 (demo_impl\<lparr>certificate := ''CERT''\<rparr>) demo_state2)
      = Returned (r, operation_not_supported) s'"
    by blast
  from own e have 2: "\<not> (\<exists>r s'. use_private_key demo_engine 1 ''KEY'' pem default_error_code
        (set_impl 1 (demo_impl\<lparr>certificate := ''CERT''\<rparr>) demo_state2)
      = Returned (r, operation_not_supported) s')"
    by blast
  from frame have "\<forall>c mu ec ec' s'. non_throwing demo_engine c mu ec demo_state2 = Returned ec' s' \<longrightarrow>
            (\<exists>i'. deref s' 1 = Some (1, i')
               \<and> certificate_file i' =
                   (if contexts demo_state2 c = Some (Some 1)
                    then (case mu of Use_certificate_file y g \<Rightarrow> y | _ \<Rightarrow> certificate_file demo_impl)
                    else certificate_file demo_impl)
               \<and> certificate i' =
                   (if contexts demo_state2 c = Some (Some 1)
                    then (case mu of Use_certificate y g \<Rightarrow> y | _ \<Rightarrow> certificate demo_impl)
                    else certificate demo_impl))"
    by blast
  from this [rule_format, OF call] other e have 3:
    "\<exists>i'. deref (set_impl 2 (demo_impl2\<lparr>certificate_file := ''cert.pem''\<rparr>) demo_state2) 1
          = Some (1, i') \<and> certificate_file i' = []"
    by auto
  from 1 2 3 show ?thesis by blast
qed

section \<open>Stored certificates over a program run\<close>

lemma last_certificate_file_snoc:
  "last_certificate_file (mus @ [mu]) a =
     (case mu of Use_certificate_file y g \<Rightarrow> y | _ \<Rightarrow> last_certificate_file mus a)"
proof (induction mus arbitrary: a)
  case Nil
  show ?case by (cases mu) simp_all
next
  case (Cons mu' mus)
  show ?case
    using Cons.IH by (cases mu') (auto split: mutator.splits)
qed

lemma last_certificate_snoc:
  "last_certificate (mus @ [mu]) a =
     (case mu of Use_certificate y g \<Rightarrow> y | _ \<Rightarrow> last_certificate mus a)"
proof (induction mus arbitrary: a)
  case Nil
  show ?case by (cases mu) simp_all
next
  case (Cons mu' mus)
  show ?case
    using Cons.IH by (cases mu') (auto split: mutator.splits)
qed

lemma calls_on_snoc:
  "calls_on q (log @ [(p, mu)]) = (if p = q then calls_on q log @ [mu] else calls_on q log)"
  by (simp add: calls_on_def)

lemma calls_on_none: "(\<forall>e \<in> set log. fst e \<noteq> q) \<Longrightarrow> calls_on q log = []"
  by (induction log) (auto simp: calls_on_def)

lemma non_throwing_impls_frame:
  assumes "non_throwing E c mu ec s = Returned ec' s'" and "impls s' q = Some j'"
  shows "next_impl s' = next_impl s
       \<and> (\<exists>j. impls s q = Some j
             \<and> certificate_file j' =
                 (if contexts s c = Some (Some q)
                  then (case mu of Use_certificate_file y g \<Rightarrow> y | _ \<Rightarrow> certificate_file j)
                  else certificate_file j)
             \<and> certificate j' =
                 (if contexts s c = Some (Some q)
                  then (case mu of Use_certificate y g \<Rightarrow> y | _ \<Rightarrow> certificate j)
                  else certificate j))"
  using assms
  by (cases mu)
    (auto simp: non_throwing_defs deref_def set_impl_def Let_def
      split: option.splits prod.splits if_splits)

lemma non_throwing_no_store_same:
  assumes "non_throwing E c mu ec s = Returned ec' s'" and "deref s c = None"
  shows "s' = s"
  using assms by (cases mu) (auto simp: non_throwing_defs)

lemma recorded_lifecycle:
  assumes "recorded log s" and "next_impl s' = next_impl s"
    and "\<And>q j. impls s' q = Some j \<Longrightarrow>
           \<exists>j0. impls s q = Some j0 \<and> certificate_file j = certificate_file j0
             \<and> certificate j = certificate j0"
  shows "recorded log s'"
  using assms unfolding recorded_def by metis

lemma move_assign_next_impl:
  "move_assign E a b s = Returned () s' \<Longrightarrow> next_impl s' = next_impl s"
  using move_assign_frame by blast

lemma context_dtor_next_impl:
  "context_dtor E a s = Returned () s' \<Longrightarrow> next_impl s' = next_impl s"
  by (auto simp: context_dtor_def Let_def split: option.splits)
lemma last_certificate_file_stored:
  "last_certificate_file mus a = a
   \<or> (\<exists>g. Use_certificate_file (last_certificate_file mus a) g \<in> set mus)"
proof (induction mus arbitrary: a)
  case Nil
  then show ?case by simp
next
  case (Cons mu mus)
  show ?case
  proof (cases mu)
    case (Use_certificate_file x g)
    with Cons.IH [of x] show ?thesis by auto
  qed (use Cons.IH [of a] in auto)
qed

lemma last_certificate_stored:
  "last_certificate mus a = a
   \<or> (\<exists>g. Use_certificate (last_certificate mus a) g \<in> set mus)"
proof (induction mus arbitrary: a)
  case Nil
  then show ?case by simp
next
  case (Cons mu mus)
  show ?case
  proof (cases mu)
    case (Use_certificate x g)
    with Cons.IH [of x] show ?thesis by auto
  qed (use Cons.IH [of a] in auto)
qed

text \<open>
  Over a whole program run, with any number of contexts, moves and destructions, every
  store holds what the calls on it stored last.
\<close>

lemma history_recorded: "history E log s \<Longrightarrow> recorded log s"
proof (induction rule: history.induct)
  case (no_store s)
  then show ?case by (simp add: recorded_def)
next
  case (constructed log s this m0 s')
  from constructed.hyps(2) obtain i w' where
    s': "s' = s\<lparr>contexts := (contexts s)(this \<mapsto> Some (next_impl s)),
            impls := (impls s)(next_impl s \<mapsto> i),
            use_count := (use_count s)(next_impl s := 1),
            next_impl := Suc (next_impl s), native := w'\<rparr>"
    and i: "certificate_file i = []" "certificate i = []"
    by (auto simp: context_ctor_def impl_ctor_def split: outcome.splits prod.splits if_splits
        option.splits)
  from constructed.IH have "\<forall>e \<in> set log. fst e \<noteq> next_impl s"
    unfolding recorded_def by auto
  then have "calls_on (next_impl s) log = []"
    by (rule calls_on_none)
  with constructed.IH s' i show ?case
    unfolding recorded_def by (auto simp: less_Suc_eq split: if_splits)
next
  case (construction_failed log s this m0 e s')
  then show ?case
    by (auto simp: context_ctor_def recorded_def split: outcome.splits)
next
  case (move_constructed log s this other s')
  from move_constructed.hyps(2)
  have "move_assign E this other (s\<lparr>contexts := (contexts s)(this \<mapsto> None)\<rparr>) = Returned () s'"
    by (simp add: context_move_ctor_def)
  from move_assign_next_impl [OF this] have "next_impl s' = next_impl s" by simp
  with move_constructed.IH context_move_ctor_strings [OF move_constructed.hyps(2)]
  show ?case
    by (rule_tac recorded_lifecycle) auto
next
  case (move_assigned log s this other s')
  with move_assign_next_impl [OF move_assigned.hyps(2)]
    move_assign_strings [OF move_assigned.hyps(2)]
  show ?case
    by (rule_tac recorded_lifecycle) auto
next
  case (destroyed log s this s')
  with context_dtor_next_impl [OF destroyed.hyps(2)]
    context_dtor_strings [OF destroyed.hyps(2)]
  show ?case
    by (rule_tac recorded_lifecycle) auto
next
  case (called log s this mu ec ec' s')
  show ?case
  proof (cases "deref s this")
    case None
    have "s' = s" by (rule non_throwing_no_store_same [OF called.hyps(2) None])
    with called.IH None show ?thesis by simp
  next
    case (Some pi)
    then obtain p i where d: "deref s this = Some (p, i)" by (cases pi) auto
    then have cp: "contexts s this = Some (Some p)" and ip: "impls s p = Some i"
      by (auto dest: deref_contexts deref_impls)
    have n: "next_impl s' = next_impl s"
      using non_throwing_frame [OF called.hyps(2)] by simp
    have stores: "\<forall>q j'. impls s' q = Some j' \<longrightarrow>
        q < next_impl s'
        \<and> certificate_file j' = last_certificate_file (calls_on q (log @ [(p, mu)])) []
        \<and> certificate j' = last_certificate (calls_on q (log @ [(p, mu)])) []"
    proof (intro allI impI)
      fix q j'
      assume q: "impls s' q = Some j'"
      from non_throwing_impls_frame [OF called.hyps(2) q] obtain j where
        j: "impls s q = Some j"
        and f: "certificate_file j' =
                 (if contexts s this = Some (Some q)
                  then (case mu of Use_certificate_file y g \<Rightarrow> y | _ \<Rightarrow> certificate_file j)
                  else certificate_file j)"
        and c: "certificate j' =
                 (if contexts s this = Some (Some q)
                  then (case mu of Use_certificate y g \<Rightarrow> y | _ \<Rightarrow> certificate j)
                  else certificate j)"
        by blast
      from called.IH j have r: "q < next_impl s"
        "certificate_file j = last_certificate_file (calls_on q log) []"
        "certificate j = last_certificate (calls_on q log) []"
        unfolding recorded_def by auto
      show "q < next_impl s'
        \<and> certificate_file j' = last_certificate_file (calls_on q (log @ [(p, mu)])) []
        \<and> certificate j' = last_certificate (calls_on q (log @ [(p, mu)])) []"
        using r f c cp n
        by (auto simp: calls_on_snoc last_certificate_file_snoc last_certificate_snoc
            split: mutator.splits)
    qed
    from called.IH ip have "p < next_impl s" unfolding recorded_def by auto
    with called.IH n have "\<forall>e \<in> set (log @ [(p, mu)]). fst e < next_impl s'"
      unfolding recorded_def by auto
    with stores d show ?thesis
      unfolding recorded_def by simp
  qed
qed

lemma stored_certificate_history:
  assumes "history E log s" and "deref s this = Some (p, i)"
  shows "certificate_file i = last_certificate_file (calls_on p log) []
       \<and> certificate i = last_certificate (calls_on p log) []"
  using history_recorded [OF assms(1)] deref_impls [OF assms(2)]
  unfolding recorded_def by blast

text \<open>
  So a private-key call gets past the sequencing check of its form only if a call of
  the certificate function of the same form stored the non-empty string on that store.
\<close>

lemma past_the_check_only_if_stored:
  assumes "history E log s" and "deref s this = Some (p, i)"
  shows "(certificate_file i \<noteq> [] \<longrightarrow>
            (\<exists>g. (p, Use_certificate_file (certificate_file i) g) \<in> set log))
       \<and> (certificate i \<noteq> [] \<longrightarrow> (\<exists>g. (p, Use_certificate (certificate i) g) \<in> set log))"
proof -
  have "set (calls_on p log) \<subseteq> snd ` {e \<in> set log. fst e = p}"
    by (auto simp: calls_on_def)
  then have *: "\<And>mu. mu \<in> set (calls_on p log) \<Longrightarrow> (p, mu) \<in> set log"
    by force
  from stored_certificate_history [OF assms]
    last_certificate_file_stored [of "calls_on p log" "[]"]
    last_certificate_stored [of "calls_on p log" "[]"] *
  show ?thesis by metis
qed

end
